theory Spec2Isabelle
  imports Complex_Main "HOL-Library.Product_Lexorder" "HOL-Library.Log_Nat"
begin

section \<open>Period statistics engine of the video analytics bot\<close>

text \<open>
  A shallow embedding of \<^verbatim>\<open>src/managers/date_ai_manager.py\<close>: the period bounds, the
  classification of a period against the two yearly data windows, the two SQL queries that
  compute per-video gains, the roll-up of the rows, and the result cache with its expiry
  and eviction. Names follow the Python source; a leading underscore is dropped.
\<close>

subsection \<open>Python values used by the module\<close>

text \<open>
  The texts of the module, by where they are used: the three Russian error texts of the
  request checks, the no-data text, the out-of-range text (which quotes the target year),
  the month names shown under \<^verbatim>\<open>filters_applied\<close>, and the texts that \<^verbatim>\<open>datetime\<close> and
  \<^verbatim>\<open>min\<close> give their own \<^verbatim>\<open>ValueError\<close>.
\<close>

datatype message =
    End_before_start
  | Creator_id_range
  | Bad_period_parameters
  | No_data_for_period
  | Period_out_of_range int
  | Months_august_october
  | Months_november_december
  | Datetime_field_out_of_range
  | Min_of_empty_sequence

text \<open>
  Exceptions that leave a method of the manager. \<open>NotInitialized\<close> is the
  \<^verbatim>\<open>RuntimeError\<close> of \<^verbatim>\<open>_check_initialized\<close>; \<open>StorageUnavailable\<close> stands for any
  exception of the database driver; a \<^verbatim>\<open>ValueError\<close> carries its text.
\<close>

datatype error =
    NotInitialized
  | AttributeError
  | ValueError message
  | OverflowError
  | ZeroDivisionError
  | StorageUnavailable

text \<open>
  A naive \<^verbatim>\<open>datetime\<close>: the seven fields of the Python object. Python compares two
  naive datetimes as the tuples of their fields.
\<close>

record datetime =
  year :: int
  month :: int
  day :: int
  hour :: int
  minute :: int
  second :: int
  microsecond :: int

definition dt_tuple :: "datetime \<Rightarrow> int \<times> int \<times> int \<times> int \<times> int \<times> int \<times> int" where
  "dt_tuple d = (year d, month d, day d, hour d, minute d, second d, microsecond d)"

definition dt_lt :: "datetime \<Rightarrow> datetime \<Rightarrow> bool" where
  "dt_lt a b = (dt_tuple a < dt_tuple b)"

definition dt_le :: "datetime \<Rightarrow> datetime \<Rightarrow> bool" where
  "dt_le a b = (dt_tuple a \<le> dt_tuple b)"

text \<open>The calendar helpers of the standard \<^verbatim>\<open>datetime\<close> module.\<close>

definition is_leap :: "int \<Rightarrow> bool" where
  "is_leap y = (y mod 4 = 0 \<and> (y mod 100 \<noteq> 0 \<or> y mod 400 = 0))"

definition days_in_month_tab :: "int list" where
  "days_in_month_tab = [0, 31, 28, 31, 30, 31, 30, 31, 31, 30, 31, 30, 31]"

definition days_before_month_tab :: "int list" where
  "days_before_month_tab = [0, 0, 31, 59, 90, 120, 151, 181, 212, 243, 273, 304, 334]"

definition days_in_month :: "int \<Rightarrow> int \<Rightarrow> int" where
  "days_in_month y m =
     (if m = 2 \<and> is_leap y then 29 else days_in_month_tab ! nat m)"

definition days_before_year :: "int \<Rightarrow> int" where
  "days_before_year y =
     (let y1 = y - 1 in y1 * 365 + y1 div 4 - y1 div 100 + y1 div 400)"

definition days_before_month :: "int \<Rightarrow> int \<Rightarrow> int" where
  "days_before_month y m =
     days_before_month_tab ! nat m + (if m > 2 \<and> is_leap y then 1 else 0)"

definition ymd2ord :: "int \<Rightarrow> int \<Rightarrow> int \<Rightarrow> int" where
  "ymd2ord y m d = days_before_year y + days_before_month y m + d"

definition ord2ymd :: "int \<Rightarrow> int \<times> int \<times> int" where
  "ord2ymd n0 =
     (let n = n0 - 1;
          n400 = n div 146097; n = n mod 146097;
          y = n400 * 400 + 1;
          n100 = n div 36524; n = n mod 36524;
          n4 = n div 1461; n = n mod 1461;
          n1 = n div 365; n = n mod 365;
          y = y + n100 * 100 + n4 * 4 + n1
      in if n1 = 4 \<or> n100 = 4 then (y - 1, 12, 31)
         else
           let leapyear = (n1 = 3 \<and> (n4 \<noteq> 24 \<or> n100 = 3));
               m = (n + 50) div 32;
               preceding = days_before_month_tab ! nat m + (if m > 2 \<and> leapyear then 1 else 0)
           in if preceding > n
              then
                let m' = m - 1;
                    preceding' = preceding
                      - (days_in_month_tab ! nat m' + (if m' = 2 \<and> leapyear then 1 else 0))
                in (y, m', n - preceding' + 1)
              else (y, m, n - preceding + 1))"

text \<open>
  A datetime object always holds a date of the proleptic Gregorian calendar between the
  years 1 and 9999 and a time of day.
\<close>

definition valid_date :: "int \<Rightarrow> int \<Rightarrow> int \<Rightarrow> bool" where
  "valid_date y m d =
     (1 \<le> y \<and> y \<le> 9999 \<and> 1 \<le> m \<and> m \<le> 12 \<and> 1 \<le> d \<and> d \<le> days_in_month y m)"

definition valid_datetime :: "datetime \<Rightarrow> bool" where
  "valid_datetime d =
     (valid_date (year d) (month d) (day d) \<and> 0 \<le> hour d \<and> hour d < 24
      \<and> 0 \<le> minute d \<and> minute d < 60 \<and> 0 \<le> second d \<and> second d < 60
      \<and> 0 \<le> microsecond d \<and> microsecond d < 1000000)"

text \<open>\<^verbatim>\<open>datetime(y, m, d, hh, mm, ss)\<close>: the constructor checks its fields.\<close>

definition mk_datetime :: "int \<Rightarrow> int \<Rightarrow> int \<Rightarrow> int \<Rightarrow> int \<Rightarrow> int \<Rightarrow> error + datetime" where
  "mk_datetime y m d hh mm ss =
     (let r = \<lparr>year = y, month = m, day = d, hour = hh, minute = mm, second = ss,
                microsecond = 0\<rparr>
      in if valid_datetime r then Inr r else Inl (ValueError Datetime_field_out_of_range))"

text \<open>\<^verbatim>\<open>d.replace(hour=0, minute=0, second=0, microsecond=0)\<close> cannot fail.\<close>

definition midnight :: "datetime \<Rightarrow> datetime" where
  "midnight d = d\<lparr>hour := 0, minute := 0, second := 0, microsecond := 0\<rparr>"

text \<open>\<^verbatim>\<open>d.replace(year=y, month=m, day=dd)\<close> checks the new date.\<close>

definition replace_ymd :: "datetime \<Rightarrow> int \<Rightarrow> int \<Rightarrow> int \<Rightarrow> error + datetime" where
  "replace_ymd d y m dd =
     (if valid_date y m dd then Inr (d\<lparr>year := y, month := m, day := dd\<rparr>)
      else Inl (ValueError Datetime_field_out_of_range))"

text \<open>
  \<^verbatim>\<open>d + timedelta(days=n)\<close>: the date goes through its ordinal; a result outside the
  years 1 to 9999 raises \<^verbatim>\<open>OverflowError\<close>.
\<close>

definition toordinal :: "datetime \<Rightarrow> int" where
  "toordinal d = ymd2ord (year d) (month d) (day d)"

definition add_days :: "datetime \<Rightarrow> int \<Rightarrow> error + datetime" where
  "add_days d n =
     (let k = toordinal d + n
      in if 1 \<le> k \<and> k \<le> 3652059
         then (case ord2ymd k of (y, m, dd) \<Rightarrow> Inr (d\<lparr>year := y, month := m, day := dd\<rparr>))
         else Inl OverflowError)"

definition weekday :: "datetime \<Rightarrow> int" where
  "weekday d = (toordinal d + 6) mod 7"

text \<open>
  A Python \<^verbatim>\<open>float\<close> is an IEEE binary64 number, here the rational it denotes. Each
  arithmetic operation is the exact operation followed by rounding to 53 significant bits,
  ties to even (\<open>b64\<close>); exponent overflow and subnormal numbers are outside the
  magnitudes the module handles and are not modelled.
\<close>

type_synonym pyfloat = rat

definition round_half_even :: "rat \<Rightarrow> int" where
  "round_half_even x =
     (let f = \<lfloor>x\<rfloor>; r = x - of_int f
      in if r < 1 / 2 then f else if 1 / 2 < r then f + 1
         else if even f then f else f + 1)"

definition pow2 :: "int \<Rightarrow> rat" where
  "pow2 e = (if 0 \<le> e then 2 ^ nat e else 1 / 2 ^ nat (- e))"

definition floor_log2 :: "rat \<Rightarrow> int" where
  "floor_log2 x =
     (case quotient_of x of (p, q) \<Rightarrow>
        let e0 = bitlen p - bitlen q - 1
        in if pow2 (e0 + 1) \<le> x then e0 + 1 else e0)"

definition b64 :: "rat \<Rightarrow> pyfloat" where
  "b64 x =
     (if x = 0 then 0
      else let e = floor_log2 \<bar>x\<bar> - 52
           in of_int (round_half_even (x / pow2 e)) * pow2 e)"

definition float_sub :: "pyfloat \<Rightarrow> pyfloat \<Rightarrow> pyfloat" where
  "float_sub a b = b64 (a - b)"

definition float_mul :: "pyfloat \<Rightarrow> pyfloat \<Rightarrow> pyfloat" where
  "float_mul a b = b64 (a * b)"

text \<open>\<^verbatim>\<open>a / b\<close> on two ints is the correctly rounded quotient.\<close>

definition int_truediv :: "int \<Rightarrow> int \<Rightarrow> error + pyfloat" where
  "int_truediv a b =
     (if b = 0 then Inl ZeroDivisionError else Inr (b64 (of_int a / of_int b)))"

text \<open>
  \<^verbatim>\<open>round(x, 2)\<close> on a float: the exact value of \<open>x\<close> is rounded to two decimals, ties to
  even, and the decimal is converted back to the nearest float.
\<close>

definition round2 :: "pyfloat \<Rightarrow> pyfloat" where
  "round2 x = b64 (of_int (round_half_even (x * 100)) / 100)"

text \<open>The values a result dictionary holds; a dictionary keeps its insertion order.\<close>

datatype pyval =
    PBool bool
  | PInt int
  | PFloat pyfloat
  | PStr string
  | PText message
  | PDatetime datetime
  | PList "pyval list"
  | PDict "(string \<times> pyval) list"

type_synonym pydict = "(string \<times> pyval) list"

subsection \<open>Configuration and manager state\<close>

record DataPeriod =
  video_creation_start :: datetime
  video_creation_end :: datetime
  stats_start :: datetime
  stats_end :: datetime
  target_year :: int

datatype PeriodType = DAY | WEEK | MONTH | CUSTOM | ALL_TIME

fun period_value :: "PeriodType \<Rightarrow> string" where
  "period_value DAY = ''day''"
| "period_value WEEK = ''week''"
| "period_value MONTH = ''month''"
| "period_value CUSTOM = ''custom''"
| "period_value ALL_TIME = ''all_time''"

datatype DataType = VIDEO_CREATION | STATS_ONLY | MIXED | NONE

fun data_value :: "DataType \<Rightarrow> string" where
  "data_value VIDEO_CREATION = ''video_creation''"
| "data_value STATS_ONLY = ''stats_only''"
| "data_value MIXED = ''mixed''"
| "data_value NONE = ''none''"

text \<open>
  The cache key is the string \<^verbatim>\<open>f"{period_type.value}_{start.timestamp()}_{end.timestamp()}"\<close>.
  It is kept as its three interpolated parts: the enum values hold no digit and the
  conversion of a local time to its timestamp is taken as one-to-one, so two keys are the
  same string exactly when their parts agree.
\<close>

type_synonym cache_key = "string \<times> datetime \<times> datetime"

text \<open>
  What a call does besides returning: each call of \<^verbatim>\<open>_get_cached\<close>, each call of
  \<^verbatim>\<open>_set_cached\<close> and each query sent to the database is appended to \<open>trace\<close>, a
  field the Python object does not have and that no function reads.
\<close>

datatype event = Cache_read cache_key | Cache_write cache_key | Storage_query

record manager =
  initialized :: bool
  data_period :: "DataPeriod option"
  stats_cache :: "(cache_key \<times> pydict \<times> pyfloat) list"
  MAX_CACHE_SIZE :: int
  CACHE_TTL :: rat
  trace :: "event list"

text \<open>The period built by \<^verbatim>\<open>initialize\<close> from the target year.\<close>

definition initial_data_period :: "int \<Rightarrow> DataPeriod" where
  "initial_data_period y =
     \<lparr>video_creation_start =
        \<lparr>year = y, month = 8, day = 1, hour = 0, minute = 0, second = 0, microsecond = 0\<rparr>,
      video_creation_end =
        \<lparr>year = y, month = 10, day = 31, hour = 23, minute = 59, second = 59, microsecond = 0\<rparr>,
      stats_start =
        \<lparr>year = y, month = 11, day = 1, hour = 0, minute = 0, second = 0, microsecond = 0\<rparr>,
      stats_end =
        \<lparr>year = y, month = 12, day = 31, hour = 23, minute = 59, second = 59, microsecond = 0\<rparr>,
      target_year = y\<rparr>"

subsection \<open>The result cache\<close>

text \<open>
  A Python dictionary as an association list in insertion order with distinct keys:
  assignment to a present key keeps its place, assignment to a new key appends.
\<close>

fun dict_set :: "'k \<Rightarrow> 'v \<Rightarrow> ('k \<times> 'v) list \<Rightarrow> ('k \<times> 'v) list" where
  "dict_set k v [] = [(k, v)]"
| "dict_set k v ((a, b) # ps) = (if a = k then (k, v) # ps else (a, b) # dict_set k v ps)"

definition dict_del :: "'k \<Rightarrow> ('k \<times> 'v) list \<Rightarrow> ('k \<times> 'v) list" where
  "dict_del k ps = filter (\<lambda>p. fst p \<noteq> k) ps"

text \<open>
  \<^verbatim>\<open>min(keys, key=f)\<close>: the first key, in iteration order, whose \<open>f\<close> is least;
  \<^verbatim>\<open>ValueError\<close> on an empty dictionary.
\<close>

fun min_by :: "('a \<Rightarrow> rat) \<Rightarrow> 'a \<Rightarrow> 'a list \<Rightarrow> 'a" where
  "min_by f best [] = best"
| "min_by f best (x # xs) = min_by f (if f x < f best then x else best) xs"

definition py_min :: "('a \<Rightarrow> rat) \<Rightarrow> 'a list \<Rightarrow> error + 'a" where
  "py_min f xs =
     (case xs of [] \<Rightarrow> Inl (ValueError Min_of_empty_sequence)
      | x # rest \<Rightarrow> Inr (min_by f x rest))"

text \<open>
  \<^verbatim>\<open>_get_cached\<close>; \<open>now\<close> is the value \<^verbatim>\<open>time.time()\<close> returns when it is read. An
  entry that has reached its time to live is deleted by the lookup.
\<close>

definition get_cached :: "pyfloat \<Rightarrow> cache_key \<Rightarrow> manager \<Rightarrow> pydict option \<times> manager" where
  "get_cached now key m =
     (let m1 = m\<lparr>trace := trace m @ [Cache_read key]\<rparr>
      in case map_of (stats_cache m) key of
           None \<Rightarrow> (None, m1)
         | Some (val, timestamp) \<Rightarrow>
             if float_sub now timestamp < CACHE_TTL m then (Some val, m1)
             else (None, m1\<lparr>stats_cache := dict_del key (stats_cache m)\<rparr>))"

text \<open>\<^verbatim>\<open>_set_cached\<close>, in its three steps: drop the expired, make room, store.\<close>

definition expired :: "rat \<Rightarrow> pyfloat \<Rightarrow> cache_key \<times> pydict \<times> pyfloat \<Rightarrow> bool" where
  "expired ttl current_time e = (ttl \<le> float_sub current_time (snd (snd e)))"

definition purge :: "rat \<Rightarrow> pyfloat \<Rightarrow> (cache_key \<times> pydict \<times> pyfloat) list
    \<Rightarrow> (cache_key \<times> pydict \<times> pyfloat) list" where
  "purge ttl current_time c = filter (\<lambda>e. \<not> expired ttl current_time e) c"

definition evict :: "int \<Rightarrow> (cache_key \<times> pydict \<times> pyfloat) list
    \<Rightarrow> error + (cache_key \<times> pydict \<times> pyfloat) list" where
  "evict cap c =
     (if cap \<le> int (length c)
      then (case py_min (\<lambda>e. snd (snd e)) c of
              Inl err \<Rightarrow> Inl err
            | Inr oldest \<Rightarrow> Inr (dict_del (fst oldest) c))
      else Inr c)"

definition set_cached :: "pyfloat \<Rightarrow> cache_key \<Rightarrow> pydict \<Rightarrow> manager \<Rightarrow> (error + unit) \<times> manager" where
  "set_cached current_time key val m =
     (let c1 = purge (CACHE_TTL m) current_time (stats_cache m);
          m1 = m\<lparr>stats_cache := c1, trace := trace m @ [Cache_write key]\<rparr>
      in case evict (MAX_CACHE_SIZE m) c1 of
           Inl err \<Rightarrow> (Inl err, m1)
         | Inr c2 \<Rightarrow> (Inr (), m1\<lparr>stats_cache := dict_set key (val, current_time) c2\<rparr>))"

subsection \<open>Period bounds\<close>

text \<open>\<^verbatim>\<open>_calculate_day_bounds\<close>, \<^verbatim>\<open>_calculate_week_bounds\<close>, \<^verbatim>\<open>_calculate_month_bounds\<close>.\<close>

definition calculate_day_bounds :: "datetime \<Rightarrow> error + datetime \<times> datetime" where
  "calculate_day_bounds date =
     (let start = midnight date
      in (case add_days start 1 of Inl err \<Rightarrow> Inl err | Inr end \<Rightarrow> Inr (start, end)))"

definition calculate_week_bounds :: "datetime \<Rightarrow> error + datetime \<times> datetime" where
  "calculate_week_bounds date =
     (case add_days date (- weekday date) of
        Inl err \<Rightarrow> Inl err
      | Inr monday \<Rightarrow>
          (let start = midnight monday
           in (case add_days start 7 of Inl err \<Rightarrow> Inl err | Inr end \<Rightarrow> Inr (start, end))))"

definition calculate_month_bounds :: "int \<Rightarrow> int \<Rightarrow> error + datetime \<times> datetime" where
  "calculate_month_bounds y m =
     (case mk_datetime y m 1 0 0 0 of
        Inl err \<Rightarrow> Inl err
      | Inr start \<Rightarrow>
          (case (if m = 12 then mk_datetime (y + 1) 1 1 0 0 0 else mk_datetime y (m + 1) 1 0 0 0) of
             Inl err \<Rightarrow> Inl err
           | Inr end \<Rightarrow> Inr (start, end)))"

text \<open>
  The module-level \<^verbatim>\<open>_calculate_period_bounds\<close>. Both dates are optional; a datetime is
  always true as a condition, so \<^verbatim>\<open>and start_date\<close> asks that the date is given. The
  result \<open>None\<close> is the Python \<^verbatim>\<open>None\<close> of the last line.
\<close>

definition calculate_period_bounds ::
    "datetime option \<Rightarrow> PeriodType \<Rightarrow> datetime option \<Rightarrow> error + (datetime \<times> datetime) option" where
  "calculate_period_bounds start_date period_type end_date =
     (case (period_type, start_date, end_date) of
        (DAY, Some sd, _) \<Rightarrow>
          (let start = midnight sd
           in (case add_days start 1 of
                 Inl err \<Rightarrow> Inl err
               | Inr end \<Rightarrow> Inr (Some (start, end))))
      | (WEEK, Some sd, _) \<Rightarrow>
          (case add_days sd (- weekday sd) of
             Inl err \<Rightarrow> Inl err
           | Inr monday \<Rightarrow>
               (let start = midnight monday
                in (case add_days start 7 of
                      Inl err \<Rightarrow> Inl err
                    | Inr end \<Rightarrow> Inr (Some (start, end)))))
      | (MONTH, Some sd, _) \<Rightarrow>
          (let start = midnight (sd\<lparr>day := 1\<rparr>)
           in (case (if month sd = 12 then replace_ymd sd (year sd + 1) 1 1
                     else replace_ymd sd (year sd) (month sd + 1) 1) of
                 Inl err \<Rightarrow> Inl err
               | Inr end \<Rightarrow> Inr (Some (start, end))))
      | (CUSTOM, Some sd, Some ed) \<Rightarrow>
          (if dt_lt ed sd then Inl (ValueError End_before_start)
           else (case add_days (midnight ed) 1 of
                   Inl err \<Rightarrow> Inl err
                 | Inr end \<Rightarrow> Inr (Some (midnight sd, end))))
      | _ \<Rightarrow> Inr None)"

subsection \<open>Classification of a period\<close>

text \<open>\<^verbatim>\<open>_get_period_type\<close>.\<close>

definition get_period_type :: "DataPeriod \<Rightarrow> datetime \<Rightarrow> datetime \<Rightarrow> DataType" where
  "get_period_type period start end =
     (if dt_le end (video_creation_start period) \<or> dt_le (stats_end period) start then NONE
      else if dt_le (video_creation_start period) start \<and> dt_le end (video_creation_end period)
        then VIDEO_CREATION
      else if dt_le (stats_start period) start \<and> dt_le end (stats_end period)
        then STATS_ONLY
      else MIXED)"

subsection \<open>The storage and the two queries\<close>

text \<open>
  The columns of \<^verbatim>\<open>videos\<close> and \<^verbatim>\<open>video_snapshots\<close> that the queries read. The schema
  file is not among the sources, so every data column may hold \<^verbatim>\<open>NULL\<close> (\<open>None\<close>), and an
  integer column is read without a bound on its width. A comparison with \<^verbatim>\<open>NULL\<close> does not
  hold, and \<^verbatim>\<open>MAX\<close> skips \<^verbatim>\<open>NULL\<close>.
\<close>

record video =
  v_id :: string
  creator_human_number :: "int option"
  video_created_at :: "datetime option"

record snapshot =
  video_id :: string
  views_count :: "int option"
  likes_count :: "int option"
  created_at :: "datetime option"

record database =
  table_videos :: "video list"
  table_video_snapshots :: "snapshot list"

text \<open>The storage at the time of a query: \<open>None\<close> when the driver raises.\<close>

type_synonym storage = "database option"

definition sql_between :: "datetime \<Rightarrow> datetime \<Rightarrow> datetime option \<Rightarrow> bool" where
  "sql_between lo hi c = (case c of None \<Rightarrow> False | Some t \<Rightarrow> dt_le lo t \<and> dt_le t hi)"

definition sql_before :: "datetime \<Rightarrow> datetime option \<Rightarrow> bool" where
  "sql_before bound c = (case c of None \<Rightarrow> False | Some t \<Rightarrow> dt_lt t bound)"

definition sql_max :: "int list \<Rightarrow> int option" where
  "sql_max xs = (case xs of [] \<Rightarrow> None | x # rest \<Rightarrow> Some (fold max rest x))"

definition coalesce :: "int option \<Rightarrow> int \<Rightarrow> int" where
  "coalesce v d = (case v of None \<Rightarrow> d | Some x \<Rightarrow> x)"

text \<open>\<^verbatim>\<open>COALESCE(MAX(col) FILTER (WHERE s.created_at < bound), 0)\<close> over the rows of a group.\<close>

definition max_before :: "(snapshot \<Rightarrow> int option) \<Rightarrow> datetime \<Rightarrow> snapshot list \<Rightarrow> int" where
  "max_before col bound grp =
     coalesce (sql_max (List.map_filter col (filter (\<lambda>s. sql_before bound (created_at s)) grp))) 0"

text \<open>\<^verbatim>\<open>GREATEST(... < $2 ... - ... < $1 ..., 0)\<close>.\<close>

definition gained :: "(snapshot \<Rightarrow> int option) \<Rightarrow> datetime \<Rightarrow> datetime \<Rightarrow> snapshot list \<Rightarrow> int" where
  "gained col start end grp = max (max_before col end grp - max_before col start grp) 0"

text \<open>
  The common table \<^verbatim>\<open>stats_delta\<close>, from the snapshot rows its \<^verbatim>\<open>FROM\<close> and \<^verbatim>\<open>WHERE\<close>
  leave: one group per video, kept when \<^verbatim>\<open>HAVING\<close> finds a positive gain.
\<close>

definition stats_delta :: "datetime \<Rightarrow> datetime \<Rightarrow> snapshot list \<Rightarrow> (string \<times> int \<times> int) list" where
  "stats_delta start end rows =
     filter (\<lambda>(i, vg, lg). 0 < vg \<or> 0 < lg)
       (map (\<lambda>i. let grp = filter (\<lambda>s. video_id s = i) rows
                 in (i, gained views_count start end grp, gained likes_count start end grp))
            (remdups (map video_id rows)))"

record video_row =
  human_id :: int
  is_new :: int
  views_gained :: int
  likes_gained :: int

definition created_in_period :: "datetime \<Rightarrow> datetime \<Rightarrow> datetime option \<Rightarrow> int" where
  "created_in_period start end c =
     (case c of None \<Rightarrow> 0 | Some t \<Rightarrow> if dt_le start t \<and> dt_lt t end then 1 else 0)"

text \<open>
  \<^verbatim>\<open>video_creation LEFT JOIN stats_delta\<close> with the final \<^verbatim>\<open>WHERE\<close>, for one row of
  \<^verbatim>\<open>video_creation\<close>; \<open>mk\<close> builds the selected columns.
\<close>

definition left_join :: "(int \<Rightarrow> int \<Rightarrow> int \<Rightarrow> 'r) \<Rightarrow> (string \<times> int \<times> int) list \<Rightarrow> string \<Rightarrow> int
    \<Rightarrow> (string \<times> 'r) list" where
  "left_join mk sd i new =
     (case filter (\<lambda>(j, vg, lg). j = i) sd of
        [] \<Rightarrow> if new = 1 then [(i, mk new 0 0)] else []
      | ms \<Rightarrow> map (\<lambda>(j, vg, lg). (i, mk new vg lg)) ms)"

text \<open>
  The query of \<^verbatim>\<open>_fetch_videos_in_period\<close>. \<open>snapshot_rows\<close> are the snapshots its
  \<^verbatim>\<open>stats_delta\<close> groups: those inside the counter window. The result rows are paired
  with the video id they come from, which the \<^verbatim>\<open>SELECT\<close> list then drops.
\<close>

definition snapshot_rows :: "DataPeriod \<Rightarrow> database \<Rightarrow> snapshot list" where
  "snapshot_rows period db =
     filter (\<lambda>s. sql_between (stats_start period) (stats_end period) (created_at s))
       (table_video_snapshots db)"

definition videos_in_period_joined ::
    "DataPeriod \<Rightarrow> database \<Rightarrow> datetime \<Rightarrow> datetime \<Rightarrow> (string \<times> video_row) list" where
  "videos_in_period_joined period db start end =
     (let sd = stats_delta start end (snapshot_rows period db)
      in concat (map (\<lambda>v.
           case creator_human_number v of
             None \<Rightarrow> []
           | Some h \<Rightarrow>
               if sql_between (video_creation_start period) (video_creation_end period)
                    (video_created_at v) \<and> 1 \<le> h \<and> h \<le> 19
               then left_join
                      (\<lambda>new vg lg. \<lparr>human_id = h, is_new = new, views_gained = vg,
                                     likes_gained = lg\<rparr>)
                      sd (v_id v) (created_in_period start end (video_created_at v))
               else [])
         (table_videos db)))"

text \<open>
  The query of \<^verbatim>\<open>_fetch_creator_videos_in_period\<close>: the same, for the videos of one
  creator. Its \<^verbatim>\<open>stats_delta\<close> groups the snapshots joined with the creator's videos;
  its rows are \<open>(is_new, views_gained, likes_gained)\<close>.
\<close>

definition creator_snapshot_rows :: "DataPeriod \<Rightarrow> database \<Rightarrow> int \<Rightarrow> snapshot list" where
  "creator_snapshot_rows period db creator_id =
     concat (map (\<lambda>s.
        concat (map (\<lambda>v.
          if video_id s = v_id v \<and> creator_human_number v = Some creator_id
             \<and> sql_between (stats_start period) (stats_end period) (created_at s)
          then [s] else [])
        (table_videos db)))
      (table_video_snapshots db))"

definition creator_videos_in_period_joined ::
    "DataPeriod \<Rightarrow> database \<Rightarrow> int \<Rightarrow> datetime \<Rightarrow> datetime \<Rightarrow> (string \<times> int \<times> int \<times> int) list" where
  "creator_videos_in_period_joined period db creator_id start end =
     (let sd = stats_delta start end (creator_snapshot_rows period db creator_id)
      in concat (map (\<lambda>v.
           if creator_human_number v = Some creator_id
              \<and> sql_between (video_creation_start period) (video_creation_end period)
                   (video_created_at v)
           then left_join (\<lambda>new vg lg. (new, vg, lg)) sd (v_id v)
                  (created_in_period start end (video_created_at v))
           else [])
         (table_videos db)))"

text \<open>
  The two fetch methods: the connection is acquired first, then the arguments, which read
  \<^verbatim>\<open>self.data_period\<close>, are evaluated and the query runs.
\<close>

definition fetch_videos_in_period ::
    "storage \<Rightarrow> datetime \<Rightarrow> datetime \<Rightarrow> manager \<Rightarrow> (error + video_row list) \<times> manager" where
  "fetch_videos_in_period st start end m =
     (let m1 = m\<lparr>trace := trace m @ [Storage_query]\<rparr>
      in case st of
           None \<Rightarrow> (Inl StorageUnavailable, m1)
         | Some db \<Rightarrow>
             (case data_period m of
                None \<Rightarrow> (Inl AttributeError, m1)
              | Some period \<Rightarrow> (Inr (map snd (videos_in_period_joined period db start end)), m1)))"

definition fetch_creator_videos_in_period ::
    "storage \<Rightarrow> int \<Rightarrow> datetime \<Rightarrow> datetime \<Rightarrow> manager
      \<Rightarrow> (error + (int \<times> int \<times> int) list) \<times> manager" where
  "fetch_creator_videos_in_period st creator_id start end m =
     (let m1 = m\<lparr>trace := trace m @ [Storage_query]\<rparr>
      in case st of
           None \<Rightarrow> (Inl StorageUnavailable, m1)
         | Some db \<Rightarrow>
             (case data_period m of
                None \<Rightarrow> (Inl AttributeError, m1)
              | Some period \<Rightarrow>
                  (Inr (map snd (creator_videos_in_period_joined period db creator_id start end)),
                   m1)))"

subsection \<open>Roll-up of the rows\<close>

text \<open>The dictionary under \<^verbatim>\<open>filters_applied\<close>, with the key names of each method.\<close>

definition filters_applied :: "string \<Rightarrow> string \<Rightarrow> DataPeriod \<Rightarrow> pyval" where
  "filters_applied creation_key stats_key period =
     PDict [(creation_key, PText Months_august_october),
            (stats_key, PText Months_november_december),
            (''year'', PInt (target_year period))]"

text \<open>\<^verbatim>\<open>_create_no_data_response\<close> and \<^verbatim>\<open>_create_out_of_range_response\<close>.\<close>

definition create_no_data_response ::
    "DataPeriod \<Rightarrow> datetime \<Rightarrow> datetime \<Rightarrow> PeriodType \<Rightarrow> DataType \<Rightarrow> pydict" where
  "create_no_data_response period start end period_type data_type =
     [(''period_type'', PStr (period_value period_type)),
      (''data_type'', PStr (data_value data_type)),
      (''start_date'', PDatetime start),
      (''end_date'', PDatetime end),
      (''has_data'', PBool False),
      (''message'', PText No_data_for_period),
      (''filters_applied'', filters_applied ''video_creation_months'' ''stats_months'' period)]"

definition create_out_of_range_response :: "DataPeriod \<Rightarrow> datetime \<Rightarrow> datetime \<Rightarrow> pydict" where
  "create_out_of_range_response period start end =
     [(''period_type'', PStr ''out_of_range''),
      (''start_date'', PDatetime start),
      (''end_date'', PDatetime end),
      (''has_data'', PBool False),
      (''message'', PText (Period_out_of_range (target_year period))),
      (''target_year'', PInt (target_year period))]"

text \<open>
  The loop of \<^verbatim>\<open>_aggregate_video_stats\<close>: \<^verbatim>\<open>creator_stats\<close> is a dictionary from the
  creator number to its entry, in the order the creators are first met.
\<close>

record creator_entry =
  entry_human_id :: int
  new_videos :: int
  entry_views_gained :: int
  entry_likes_gained :: int

record totals =
  creator_stats :: "(int \<times> creator_entry) list"
  total_new_videos :: int
  total_views_gained :: int
  total_likes_gained :: int

definition dict_update :: "'k \<Rightarrow> ('v \<Rightarrow> 'v) \<Rightarrow> ('k \<times> 'v) list \<Rightarrow> ('k \<times> 'v) list" where
  "dict_update k f ps = map (\<lambda>(a, b). if a = k then (a, f b) else (a, b)) ps"

definition aggregate_step :: "video_row \<Rightarrow> totals \<Rightarrow> totals" where
  "aggregate_step video t =
     (let h = human_id video;
          cs0 = (if h \<in> fst ` set (creator_stats t) then creator_stats t
                 else dict_set h \<lparr>entry_human_id = h, new_videos = 0, entry_views_gained = 0,
                                   entry_likes_gained = 0\<rparr> (creator_stats t));
          cs1 = (if is_new video \<noteq> 0
                 then dict_update h (\<lambda>e. e\<lparr>new_videos := new_videos e + 1\<rparr>) cs0 else cs0);
          n1 = (if is_new video \<noteq> 0 then total_new_videos t + 1 else total_new_videos t);
          cs2 = dict_update h
                  (\<lambda>e. e\<lparr>entry_views_gained := entry_views_gained e + views_gained video,
                          entry_likes_gained := entry_likes_gained e + likes_gained video\<rparr>) cs1
      in \<lparr>creator_stats = cs2, total_new_videos = n1,
          total_views_gained = total_views_gained t + views_gained video,
          total_likes_gained = total_likes_gained t + likes_gained video\<rparr>)"

definition aggregate_loop :: "video_row list \<Rightarrow> totals" where
  "aggregate_loop videos =
     fold aggregate_step videos
       \<lparr>creator_stats = [], total_new_videos = 0, total_views_gained = 0,
        total_likes_gained = 0\<rparr>"

text \<open>
  \<^verbatim>\<open>sorted(creator_stats.values(), key=..., reverse=True)[:5]\<close>: a stable sort, so
  entries with equal gains keep their order.
\<close>

definition top_creators :: "(int \<times> creator_entry) list \<Rightarrow> creator_entry list" where
  "top_creators cs = take 5 (sort_key (\<lambda>e. - entry_views_gained e) (map snd cs))"

definition entry_dict :: "creator_entry \<Rightarrow> pyval" where
  "entry_dict e =
     PDict [(''human_id'', PInt (entry_human_id e)),
            (''new_videos'', PInt (new_videos e)),
            (''views_gained'', PInt (entry_views_gained e)),
            (''likes_gained'', PInt (entry_likes_gained e))]"

text \<open>
  The engagement of \<^verbatim>\<open>_aggregate_video_stats\<close>: the int \<open>0\<close>, or
  \<^verbatim>\<open>(likes / views) * 100\<close> when the views are positive, and then \<^verbatim>\<open>round(..., 2)\<close>,
  which leaves the int \<open>0\<close> an int. \<^verbatim>\<open>_aggregate_creator_stats\<close> rounds inside the
  branch, with the same values.
\<close>

definition engagement_rate :: "int \<Rightarrow> int \<Rightarrow> error + pyval" where
  "engagement_rate likes views =
     (if 0 < views
      then (case int_truediv likes views of
              Inl err \<Rightarrow> Inl err
            | Inr q \<Rightarrow> Inr (PFloat (round2 (float_mul q 100))))
      else Inr (PInt 0))"

definition aggregate_video_stats ::
    "DataPeriod \<Rightarrow> video_row list \<Rightarrow> datetime \<Rightarrow> datetime \<Rightarrow> PeriodType \<Rightarrow> DataType
      \<Rightarrow> error + pydict" where
  "aggregate_video_stats period videos start end period_type data_type =
     (let t = aggregate_loop videos
      in case engagement_rate (total_likes_gained t) (total_views_gained t) of
           Inl err \<Rightarrow> Inl err
         | Inr rate \<Rightarrow>
             Inr [(''period_type'', PStr (period_value period_type)),
                  (''data_type'', PStr (data_value data_type)),
                  (''start_date'', PDatetime start),
                  (''end_date'', PDatetime end),
                  (''has_data'', PBool True),
                  (''total_videos_analyzed'', PInt (int (length videos))),
                  (''new_videos'', PInt (total_new_videos t)),
                  (''active_creators'', PInt (int (length (creator_stats t)))),
                  (''views_gained'', PInt (total_views_gained t)),
                  (''likes_gained'', PInt (total_likes_gained t)),
                  (''engagement_rate'', rate),
                  (''top_creators'', PList (map entry_dict (top_creators (creator_stats t)))),
                  (''filters_applied'',
                     filters_applied ''video_creation_months'' ''stats_months'' period)])"

definition aggregate_creator_stats ::
    "DataPeriod \<Rightarrow> int \<Rightarrow> (int \<times> int \<times> int) list \<Rightarrow> datetime \<Rightarrow> datetime \<Rightarrow> PeriodType
      \<Rightarrow> error + pydict" where
  "aggregate_creator_stats period creator_id videos start end period_type =
     (let total_new = sum_list (map (\<lambda>(new, vg, lg). new) videos);
          total_views = sum_list (map (\<lambda>(new, vg, lg). vg) videos);
          total_likes = sum_list (map (\<lambda>(new, vg, lg). lg) videos)
      in case engagement_rate total_likes total_views of
           Inl err \<Rightarrow> Inl err
         | Inr engagement \<Rightarrow>
             Inr [(''human_id'', PInt creator_id),
                  (''period_type'', PStr (period_value period_type)),
                  (''start_date'', PDatetime start),
                  (''end_date'', PDatetime end),
                  (''has_data'', PBool True),
                  (''total_videos'', PInt (int (length videos))),
                  (''new_videos'', PInt total_new),
                  (''views_gained'', PInt total_views),
                  (''likes_gained'', PInt total_likes),
                  (''engagement_rate'', engagement),
                  (''filters_applied'', filters_applied ''video_months'' ''stats_months'' period)])"

subsection \<open>The public methods\<close>

text \<open>
  \<^verbatim>\<open>_calculate_stats_for_period\<close>. \<open>t_get\<close> and \<open>t_set\<close> are the two clock readings, of
  the lookup and of the store; \<open>st\<close> is the storage when the query runs.
\<close>

definition store_and_return ::
    "pyfloat \<Rightarrow> cache_key \<Rightarrow> pydict \<Rightarrow> manager \<Rightarrow> (error + pydict) \<times> manager" where
  "store_and_return t_set key result m =
     (case set_cached t_set key result m of
        (Inl err, m') \<Rightarrow> (Inl err, m')
      | (Inr u, m') \<Rightarrow> (Inr result, m'))"

definition calculate_stats_for_period ::
    "pyfloat \<Rightarrow> pyfloat \<Rightarrow> storage \<Rightarrow> datetime \<Rightarrow> datetime \<Rightarrow> PeriodType \<Rightarrow> manager
      \<Rightarrow> (error + pydict) \<times> manager" where
  "calculate_stats_for_period t_get t_set st start end period_type m =
     (let cache_key = (period_value period_type, start, end)
      in case get_cached t_get cache_key m of
           (Some cached, m1) \<Rightarrow> (Inr cached, m1)
         | (None, m1) \<Rightarrow>
             (case data_period m1 of
                None \<Rightarrow> (Inl AttributeError, m1)
              | Some period \<Rightarrow>
                  let data_type = get_period_type period start end
                  in if data_type = NONE
                     then store_and_return t_set cache_key
                            (create_no_data_response period start end period_type data_type) m1
                     else
                       (case fetch_videos_in_period st start end m1 of
                          (Inl err, m2) \<Rightarrow> (Inl err, m2)
                        | (Inr videos, m2) \<Rightarrow>
                            if videos = []
                            then store_and_return t_set cache_key
                                   (create_no_data_response period start end period_type
                                      data_type) m2
                            else
                              (case aggregate_video_stats period videos start end period_type
                                      data_type of
                                 Inl err \<Rightarrow> (Inl err, m2)
                               | Inr result \<Rightarrow> store_and_return t_set cache_key result m2))))"

text \<open>
  \<^verbatim>\<open>get_daily_stats\<close>, \<^verbatim>\<open>get_weekly_stats\<close>, \<^verbatim>\<open>get_monthly_stats\<close> and
  \<^verbatim>\<open>get_custom_period_stats\<close>. Each starts with \<^verbatim>\<open>_check_initialized\<close> and then reads
  \<^verbatim>\<open>self.data_period.target_year\<close>.
\<close>

definition get_daily_stats ::
    "pyfloat \<Rightarrow> pyfloat \<Rightarrow> storage \<Rightarrow> datetime \<Rightarrow> manager \<Rightarrow> (error + pydict) \<times> manager" where
  "get_daily_stats t_get t_set st date m =
     (if \<not> initialized m then (Inl NotInitialized, m)
      else case data_period m of
             None \<Rightarrow> (Inl AttributeError, m)
           | Some period \<Rightarrow>
               if year date \<noteq> target_year period
               then (Inr (create_out_of_range_response period date date), m)
               else (case calculate_day_bounds date of
                       Inl err \<Rightarrow> (Inl err, m)
                     | Inr (start, end) \<Rightarrow>
                         calculate_stats_for_period t_get t_set st start end DAY m))"

definition get_weekly_stats ::
    "pyfloat \<Rightarrow> pyfloat \<Rightarrow> storage \<Rightarrow> datetime \<Rightarrow> manager \<Rightarrow> (error + pydict) \<times> manager" where
  "get_weekly_stats t_get t_set st start_date m =
     (if \<not> initialized m then (Inl NotInitialized, m)
      else case data_period m of
             None \<Rightarrow> (Inl AttributeError, m)
           | Some period \<Rightarrow>
               if year start_date \<noteq> target_year period
               then (Inr (create_out_of_range_response period start_date start_date), m)
               else (case calculate_week_bounds start_date of
                       Inl err \<Rightarrow> (Inl err, m)
                     | Inr (start, end) \<Rightarrow>
                         calculate_stats_for_period t_get t_set st start end WEEK m))"

definition get_monthly_stats ::
    "pyfloat \<Rightarrow> pyfloat \<Rightarrow> storage \<Rightarrow> int \<Rightarrow> int \<Rightarrow> manager \<Rightarrow> (error + pydict) \<times> manager" where
  "get_monthly_stats t_get t_set st y mon m =
     (if \<not> initialized m then (Inl NotInitialized, m)
      else case data_period m of
             None \<Rightarrow> (Inl AttributeError, m)
           | Some period \<Rightarrow>
               if y \<noteq> target_year period
               then (case mk_datetime y mon 1 0 0 0 of
                       Inl err \<Rightarrow> (Inl err, m)
                     | Inr d1 \<Rightarrow>
                         (case mk_datetime y mon 28 0 0 0 of
                            Inl err \<Rightarrow> (Inl err, m)
                          | Inr d28 \<Rightarrow>
                              (Inr (create_out_of_range_response period d1 d28), m)))
               else (case calculate_month_bounds y mon of
                       Inl err \<Rightarrow> (Inl err, m)
                     | Inr (start, end) \<Rightarrow>
                         calculate_stats_for_period t_get t_set st start end MONTH m))"

definition get_custom_period_stats ::
    "pyfloat \<Rightarrow> pyfloat \<Rightarrow> storage \<Rightarrow> datetime \<Rightarrow> datetime \<Rightarrow> manager
      \<Rightarrow> (error + pydict) \<times> manager" where
  "get_custom_period_stats t_get t_set st start_date end_date m =
     (if \<not> initialized m then (Inl NotInitialized, m)
      else if dt_lt end_date start_date then (Inr [(''error'', PText End_before_start)], m)
      else case data_period m of
             None \<Rightarrow> (Inl AttributeError, m)
           | Some period \<Rightarrow>
               if year start_date \<noteq> target_year period \<or> year end_date \<noteq> target_year period
               then (Inr (create_out_of_range_response period start_date end_date), m)
               else (case add_days (midnight end_date) 1 of
                       Inl err \<Rightarrow> (Inl err, m)
                     | Inr end \<Rightarrow>
                         calculate_stats_for_period t_get t_set st (midnight start_date) end
                           CUSTOM m))"

text \<open>
  \<^verbatim>\<open>get_creator_stats\<close>. The \<^verbatim>\<open>try\<close> block turns a \<^verbatim>\<open>ValueError\<close> of the bounds into
  an error dictionary with its text; any other exception leaves the method.
\<close>

definition get_creator_stats ::
    "storage \<Rightarrow> int \<Rightarrow> PeriodType \<Rightarrow> datetime option \<Rightarrow> datetime option \<Rightarrow> manager
      \<Rightarrow> (error + pydict) \<times> manager" where
  "get_creator_stats st creator_id period_type start_date end_date m =
     (if \<not> initialized m then (Inl NotInitialized, m)
      else if \<not> (1 \<le> creator_id \<and> creator_id \<le> 19)
        then (Inr [(''error'', PText Creator_id_range)], m)
      else
        let bounds =
              (if period_type = ALL_TIME
               then (case data_period m of
                       None \<Rightarrow> Inl AttributeError
                     | Some period \<Rightarrow>
                         Inr (Some (video_creation_start period, stats_end period)))
               else calculate_period_bounds start_date period_type end_date)
        in case bounds of
             Inl (ValueError text) \<Rightarrow> (Inr [(''error'', PText text)], m)
           | Inl err \<Rightarrow> (Inl err, m)
           | Inr None \<Rightarrow> (Inr [(''error'', PText Bad_period_parameters)], m)
           | Inr (Some (start, end)) \<Rightarrow>
               (case fetch_creator_videos_in_period st creator_id start end m of
                  (Inl err, m1) \<Rightarrow> (Inl err, m1)
                | (Inr videos, m1) \<Rightarrow>
                    if videos = []
                    then (Inr [(''human_id'', PInt creator_id), (''has_data'', PBool False),
                               (''message'', PText No_data_for_period)], m1)
                    else
                      (case data_period m1 of
                         None \<Rightarrow> (Inl AttributeError, m1)
                       | Some period \<Rightarrow>
                           (case aggregate_creator_stats period creator_id videos start end
                                   period_type of
                              Inl err \<Rightarrow> (Inl err, m1)
                            | Inr result \<Rightarrow> (Inr result, m1)))))"

text \<open>A field of a result, when the call returned a dictionary.\<close>

definition result_field :: "(error + pydict) \<times> manager \<Rightarrow> string \<Rightarrow> pyval option" where
  "result_field res k = (case fst res of Inl err \<Rightarrow> None | Inr d \<Rightarrow> map_of d k)"

subsection \<open>Notions used to state the properties of the queries\<close>

text \<open>
  The group of one video in \<^verbatim>\<open>stats_delta\<close>, for each of the two queries: the snapshots
  of that video among the rows the query groups.
\<close>

definition counter_group :: "DataPeriod \<Rightarrow> database \<Rightarrow> string \<Rightarrow> snapshot list" where
  "counter_group period db i = filter (\<lambda>s. video_id s = i) (snapshot_rows period db)"

definition creator_counter_group :: "DataPeriod \<Rightarrow> database \<Rightarrow> int \<Rightarrow> string \<Rightarrow> snapshot list" where
  "creator_counter_group period db creator_id i =
     filter (\<lambda>s. video_id s = i) (creator_snapshot_rows period db creator_id)"

text \<open>
  No snapshot of the group observed inside \<open>[start, end)\<close> reports more than the
  highest value observed before \<open>start\<close>.
\<close>

definition no_rise :: "(snapshot \<Rightarrow> int option) \<Rightarrow> datetime \<Rightarrow> datetime \<Rightarrow> snapshot list \<Rightarrow> bool" where
  "no_rise col start end grp =
     list_all (\<lambda>x. if sql_before end (created_at x) \<and> \<not> sql_before start (created_at x)
                    then (case col x of None \<Rightarrow> True | Some v \<Rightarrow> v \<le> max_before col start grp)
                    else True) grp"

text \<open>
  A video without signal in a period, for each of the two queries: both gains of its group
  are 0 and no row of \<^verbatim>\<open>videos\<close> with its id was created inside the period.
\<close>

definition no_signal :: "DataPeriod \<Rightarrow> database \<Rightarrow> string \<Rightarrow> datetime \<Rightarrow> datetime \<Rightarrow> bool" where
  "no_signal period db i start end =
     (gained views_count start end (counter_group period db i) = 0
      \<and> gained likes_count start end (counter_group period db i) = 0
      \<and> list_all (\<lambda>v. if v_id v = i then created_in_period start end (video_created_at v) = 0
                       else True) (table_videos db))"

definition creator_no_signal ::
    "DataPeriod \<Rightarrow> database \<Rightarrow> int \<Rightarrow> string \<Rightarrow> datetime \<Rightarrow> datetime \<Rightarrow> bool" where
  "creator_no_signal period db creator_id i start end =
     (gained views_count start end (creator_counter_group period db creator_id i) = 0
      \<and> gained likes_count start end (creator_counter_group period db creator_id i) = 0
      \<and> list_all (\<lambda>v. if v_id v = i then created_in_period start end (video_created_at v) = 0
                       else True) (table_videos db))"

text \<open>The store without a video: its rows in both tables are removed.\<close>

definition without_video :: "string \<Rightarrow> database \<Rightarrow> database" where
  "without_video i db =
     \<lparr>table_videos = filter (\<lambda>v. v_id v \<noteq> i) (table_videos db),
      table_video_snapshots = filter (\<lambda>s. video_id s \<noteq> i) (table_video_snapshots db)\<rparr>"

text \<open>
  The engagement rate in the words of the specification: 0 when no views were gained,
  otherwise the exact quotient \<open>likes_gained / views_gained * 100\<close> rounded to two
  decimal places, a tie going to the even hundredth as in \<^verbatim>\<open>round\<close>.
\<close>

definition spec_engagement_rate :: "int \<Rightarrow> int \<Rightarrow> rat" where
  "spec_engagement_rate likes views =
     (if views = 0 then 0
      else of_int (round_half_even (of_int likes / of_int views * 100 * 100)) / 100)"

text \<open>The number a result field holds.\<close>

fun number_value :: "pyval \<Rightarrow> rat option" where
  "number_value (PInt i) = Some (of_int i)"
| "number_value (PFloat x) = Some x"
| "number_value v = None"

subsection \<open>What the cache may hold\<close>

text \<open>
  The cache starts empty and only \<^verbatim>\<open>_calculate_stats_for_period\<close> stores into it. Every
  entry it stores under a key is a result for that key's period: its \<open>data_type\<close> field
  is the classification of the period, and a period classified \<open>NONE\<close> has
  \<open>has_data\<close> false.
\<close>

definition entry_sound :: "DataPeriod \<Rightarrow> cache_key \<times> pydict \<times> pyfloat \<Rightarrow> bool" where
  "entry_sound period e =
     (case e of ((pv, start, end), (val, ts)) \<Rightarrow>
        map_of val ''data_type'' = Some (PStr (data_value (get_period_type period start end)))
        \<and> (if get_period_type period start end = NONE
            then map_of val ''has_data'' = Some (PBool False) else True))"

definition cache_sound :: "DataPeriod \<Rightarrow> (cache_key \<times> pydict \<times> pyfloat) list \<Rightarrow> bool" where
  "cache_sound period c = list_all (entry_sound period) c"

text \<open>
  An entry agrees with a database when, if the query of its key's period has no row in
  that database, its value is a no-data result: \<open>has_data\<close> is false and there is no
  \<open>views_gained\<close>. The entries computed from a database agree with it.
\<close>

definition entry_agrees :: "DataPeriod \<Rightarrow> database \<Rightarrow> cache_key \<times> pydict \<times> pyfloat \<Rightarrow> bool" where
  "entry_agrees period db e =
     (case e of ((pv, start, end), (val, ts)) \<Rightarrow>
        if videos_in_period_joined period db start end = []
        then map_of val ''has_data'' = Some (PBool False) \<and> map_of val ''views_gained'' = None
        else True)"

definition cache_agrees ::
    "DataPeriod \<Rightarrow> database \<Rightarrow> (cache_key \<times> pydict \<times> pyfloat) list \<Rightarrow> bool" where
  "cache_agrees period db c = list_all (entry_agrees period db) c"

subsection \<open>Concrete inputs\<close>

text \<open>
  The manager as \<^verbatim>\<open>initialize\<close> leaves it when the latest year in the data is 2023, with
  the class constants for the cache, and the datetime \<^verbatim>\<open>datetime(y, m, d)\<close> of a valid date.
\<close>

definition manager_2023 :: manager where
  "manager_2023 =
     \<lparr>initialized = True, data_period = Some (initial_data_period 2023), stats_cache = [],
      MAX_CACHE_SIZE = 100, CACHE_TTL = 300, trace = []\<rparr>"

definition day_start :: "int \<Rightarrow> int \<Rightarrow> int \<Rightarrow> datetime" where
  "day_start y m d =
     \<lparr>year = y, month = m, day = d, hour = 0, minute = 0, second = 0, microsecond = 0\<rparr>"

text \<open>
  The store of the scenario: one video of creator 1, created on 2023-09-01, with two
  snapshots in the counter window, views 100 on 2023-11-01 and views 150 on 2023-11-05.
\<close>

definition video_e :: video where
  "video_e = \<lparr>v_id = ''E'', creator_human_number = Some 1,
               video_created_at = Some (day_start 2023 9 1)\<rparr>"

definition scenario_b_store :: database where
  "scenario_b_store =
     \<lparr>table_videos = [video_e],
      table_video_snapshots =
        [\<lparr>video_id = ''E'', views_count = Some 100, likes_count = Some 0,
           created_at = Some (day_start 2023 11 1)\<rparr>,
         \<lparr>video_id = ''E'', views_count = Some 150, likes_count = Some 0,
           created_at = Some (day_start 2023 11 5)\<rparr>]\<rparr>"

text \<open>
  A store with a falling counter: one video of creator 3 whose views go from 100 on
  2023-11-01 to 80 on 2023-11-03, while its likes go from 1 to 2.
\<close>

definition video_d :: video where
  "video_d = \<lparr>v_id = ''D'', creator_human_number = Some 3,
               video_created_at = Some (day_start 2023 10 10)\<rparr>"

definition scenario_drop_store :: database where
  "scenario_drop_store =
     \<lparr>table_videos = [video_d],
      table_video_snapshots =
        [\<lparr>video_id = ''D'', views_count = Some 100, likes_count = Some 1,
           created_at = Some (day_start 2023 11 1)\<rparr>,
         \<lparr>video_id = ''D'', views_count = Some 80, likes_count = Some 2,
           created_at = Some (day_start 2023 11 3)\<rparr>]\<rparr>"

text \<open>The two stores together.\<close>

definition scenario_mixed_store :: database where
  "scenario_mixed_store =
     \<lparr>table_videos = table_videos scenario_b_store @ table_videos scenario_drop_store,
      table_video_snapshots =
        table_video_snapshots scenario_b_store @ table_video_snapshots scenario_drop_store\<rparr>"

text \<open>
  Three cache keys, of the day, the week and the month of 2023-11-01, and a manager with
  capacity 1 whose cache holds one entry, stored at time 0.
\<close>

definition key_a :: cache_key where
  "key_a = (''day'', day_start 2023 11 1, day_start 2023 11 2)"

definition key_b :: cache_key where
  "key_b = (''week'', day_start 2023 10 30, day_start 2023 11 6)"

definition key_c :: cache_key where
  "key_c = (''month'', day_start 2023 11 1, day_start 2023 12 1)"

definition small_manager :: manager where
  "small_manager =
     \<lparr>initialized = True, data_period = Some (initial_data_period 2023),
      stats_cache = [(key_a, [(''has_data'', PBool False)], 0)],
      MAX_CACHE_SIZE = 1, CACHE_TTL = 300, trace = []\<rparr>"

text \<open>
  A store that receives a snapshot late. At first the video of creator 1 has one snapshot,
  views 100 observed on 2023-11-03; then a snapshot observed on 2023-11-02, also with views
  100, is added.
\<close>

definition scenario_early_store :: database where
  "scenario_early_store =
     \<lparr>table_videos = [video_e],
      table_video_snapshots =
        [\<lparr>video_id = ''E'', views_count = Some 100, likes_count = Some 0,
           created_at = Some (day_start 2023 11 3)\<rparr>]\<rparr>"

definition scenario_late_store :: database where
  "scenario_late_store =
     \<lparr>table_videos = [video_e],
      table_video_snapshots =
        table_video_snapshots scenario_early_store @
        [\<lparr>video_id = ''E'', views_count = Some 100, likes_count = Some 0,
           created_at = Some (day_start 2023 11 2)\<rparr>]\<rparr>"

section \<open>Properties\<close>

subsection \<open>Dictionaries and the cache\<close>

lemma map_of_dict_del: "map_of (dict_del k ps) x = (if x = k then None else map_of ps x)"
  by (induction ps) (auto simp: dict_del_def)

lemma map_of_dict_set: "map_of (dict_set k v ps) x = (if x = k then Some v else map_of ps x)"
  by (induction ps) auto

lemma keys_dict_set: "fst ` set (dict_set k v ps) = insert k (fst ` set ps)"
proof (induction ps)
  case Nil
  then show ?case by simp
next
  case (Cons p ps)
  obtain a b where p: "p = (a, b)" by (cases p)
  show ?case using Cons p by (cases "a = k") auto
qed

lemma distinct_dict_set: "distinct (map fst ps) \<Longrightarrow> distinct (map fst (dict_set k v ps))"
  by (induction ps) (auto simp: keys_dict_set)

lemma distinct_dict_del: "distinct (map fst ps) \<Longrightarrow> distinct (map fst (dict_del k ps))"
  by (simp add: dict_del_def distinct_map_filter)

lemma distinct_purge: "distinct (map fst c) \<Longrightarrow> distinct (map fst (purge ttl t c))"
  by (simp add: purge_def distinct_map_filter)

lemma min_by_in: "min_by f b xs \<in> set (b # xs)"
  by (induction xs arbitrary: b) auto

lemma min_by_le: "f (min_by f b xs) \<le> f b \<and> (\<forall>x \<in> set xs. f (min_by f b xs) \<le> f x)"
proof (induction xs arbitrary: b)
  case Nil
  then show ?case by simp
next
  case (Cons a xs)
  let ?b = "if f a < f b then a else b"
  from Cons[of ?b] have "f (min_by f ?b xs) \<le> f ?b" and "\<forall>x\<in>set xs. f (min_by f ?b xs) \<le> f x"
    by blast+
  moreover have "f ?b \<le> f b" "f ?b \<le> f a" by auto
  ultimately show ?case by (auto split del: if_split intro: order_trans)
qed

lemma length_dict_del: 
  "distinct (map fst ps) \<Longrightarrow> e \<in> set ps \<Longrightarrow> length (dict_del (fst e) ps) = length ps - 1"
proof (induction ps)
  case Nil
  then show ?case by simp
next
  case (Cons p ps)
  show ?case
  proof (cases "p = e")
    case True
    with Cons.prems have "fst e \<notin> fst ` set ps" by auto
    then have "\<forall>q \<in> set ps. fst q \<noteq> fst e" by (metis image_eqI)
    then have "filter (\<lambda>q. fst q \<noteq> fst e) ps = ps" by (simp add: filter_id_conv)
    with True show ?thesis by (simp add: dict_del_def)
  next
    case False
    with Cons.prems have e: "e \<in> set ps" and ne: "fst p \<noteq> fst e" 
      by (auto simp: rev_image_eqI)
    with Cons have "length (dict_del (fst e) ps) = length ps - 1" by simp
    moreover from e have "length ps > 0" by (cases ps) auto
    ultimately show ?thesis using ne by (simp add: dict_del_def)
  qed
qed

lemma purge_set:
  "set (purge ttl t c) = {e \<in> set c. float_sub t (snd (snd e)) < ttl}"
  by (auto simp: purge_def expired_def)

lemma evict_room: "int (length c) < cap \<Longrightarrow> evict cap c = Inr c"
  by (simp add: evict_def)

lemma evict_oldest:
  assumes "distinct (map fst c)" and "0 < cap" and "cap \<le> int (length c)"
  shows "\<exists>old \<in> set c. (\<forall>e \<in> set c. snd (snd old) \<le> snd (snd e))
           \<and> evict cap c = Inr (dict_del (fst old) c)
           \<and> length (dict_del (fst old) c) + 1 = length c"
proof -
  from assms obtain x rest where c: "c = x # rest" by (cases c) auto
  define old where "old = min_by (\<lambda>e. snd (snd e)) x rest"
  have mem: "old \<in> set c" unfolding old_def c by (rule min_by_in)
  have least: "\<forall>e \<in> set c. snd (snd old) \<le> snd (snd e)"
    unfolding old_def c using min_by_le[of "\<lambda>e. snd (snd e)" x rest] by simp
  have ev: "evict cap c = Inr (dict_del (fst old) c)"
    using assms(3) by (simp add: evict_def py_min_def c old_def)
  have "length (dict_del (fst old) c) = length c - 1"
    using assms(1) mem by (rule length_dict_del)
  moreover have "0 < length c" by (simp add: c)
  ultimately have "length (dict_del (fst old) c) + 1 = length c" by simp
  with mem least ev show ?thesis by blast
qed

lemma get_cached_fst:
  "fst (get_cached now k m) =
     (case map_of (stats_cache m) k of
        None \<Rightarrow> None
      | Some (v, ts) \<Rightarrow> if float_sub now ts < CACHE_TTL m then Some v else None)"
  by (simp add: get_cached_def Let_def split: option.splits prod.splits)

lemma set_cached_fields:
  "CACHE_TTL (snd (set_cached t k v m)) = CACHE_TTL m"
  "MAX_CACHE_SIZE (snd (set_cached t k v m)) = MAX_CACHE_SIZE m"
  "data_period (snd (set_cached t k v m)) = data_period m"
  "initialized (snd (set_cached t k v m)) = initialized m"
  by (simp_all add: set_cached_def Let_def split: sum.splits)

lemma set_cached_cache:
  "stats_cache (snd (set_cached t k v m)) =
     (case evict (MAX_CACHE_SIZE m) (purge (CACHE_TTL m) t (stats_cache m)) of
        Inl err \<Rightarrow> purge (CACHE_TTL m) t (stats_cache m)
      | Inr c2 \<Rightarrow> dict_set k (v, t) c2)"
  by (simp add: set_cached_def Let_def split: sum.splits)

lemma three_inserts_cache:
  assumes "k1 \<noteq> k2" "k1 \<noteq> k3" "k2 \<noteq> k3" "t1 \<le> t2" "float_sub t3 t2 < CACHE_TTL m"
  shows "stats_cache (snd (set_cached t3 k3 v3 (snd (set_cached t2 k2 v2 (snd (set_cached t1 k1 v1
           (m\<lparr>stats_cache := [], MAX_CACHE_SIZE := 2\<rparr>)))))))
         = [(k2, v2, t2), (k3, v3, t3)]"
proof -
  let ?m0 = "m\<lparr>stats_cache := [], MAX_CACHE_SIZE := 2\<rparr>"
  let ?m1 = "snd (set_cached t1 k1 v1 ?m0)"
  let ?m2 = "snd (set_cached t2 k2 v2 ?m1)"
  have c1: "stats_cache ?m1 = [(k1, v1, t1)]"
    by (simp add: set_cached_cache purge_def evict_def)
  have f1: "CACHE_TTL ?m1 = CACHE_TTL m" "MAX_CACHE_SIZE ?m1 = 2"
    by (simp_all add: set_cached_fields)
  have "stats_cache ?m2 =
          (case evict 2 (purge (CACHE_TTL m) t2 (stats_cache ?m1)) of
             Inl err \<Rightarrow> purge (CACHE_TTL m) t2 (stats_cache ?m1)
           | Inr c \<Rightarrow> dict_set k2 (v2, t2) c)"
    by (simp only: set_cached_cache f1)
  then have c2: "stats_cache ?m2 =
              (if expired (CACHE_TTL m) t2 (k1, v1, t1) then [(k2, v2, t2)]
               else [(k1, v1, t1), (k2, v2, t2)])"
    using assms(1) by (simp add: c1 purge_def evict_def)
  have f2: "CACHE_TTL ?m2 = CACHE_TTL m" "MAX_CACHE_SIZE ?m2 = 2"
    by (simp_all add: set_cached_fields f1)
  have k2_live: "\<not> expired (CACHE_TTL m) t3 (k2, v2, t2)"
    using assms(5) by (simp add: expired_def)
  have "stats_cache (snd (set_cached t3 k3 v3 ?m2)) =
          (case evict 2 (purge (CACHE_TTL m) t3 (stats_cache ?m2)) of
             Inl err \<Rightarrow> purge (CACHE_TTL m) t3 (stats_cache ?m2)
           | Inr c \<Rightarrow> dict_set k3 (v3, t3) c)"
    by (simp only: set_cached_cache f2)
  also have "\<dots> = [(k2, v2, t2), (k3, v3, t3)]"
    using assms(1-4) k2_live
    by (simp add: c2 purge_def evict_def py_min_def dict_del_def)
  finally show ?thesis .
qed

lemma three_inserts:
  assumes "k1 \<noteq> k2" "k1 \<noteq> k3" "k2 \<noteq> k3" "t1 \<le> t2"
    and "float_sub t3 t2 < CACHE_TTL m" "float_sub now t2 < CACHE_TTL m" "float_sub now t3 < CACHE_TTL m"
    and "m3 = snd (set_cached t3 k3 v3 (snd (set_cached t2 k2 v2 (snd (set_cached t1 k1 v1
           (m\<lparr>stats_cache := [], MAX_CACHE_SIZE := 2\<rparr>))))))"
  shows "fst (get_cached now k1 m3) = None \<and> fst (get_cached now k2 m3) = Some v2
     \<and> fst (get_cached now k3 m3) = Some v3"
proof -
  have c: "stats_cache m3 = [(k2, v2, t2), (k3, v3, t3)]"
    unfolding assms(8) using assms(1-5) by (rule three_inserts_cache)
  have t: "CACHE_TTL m3 = CACHE_TTL m"
    unfolding assms(8) by (simp add: set_cached_fields)
  show ?thesis using assms(1-3,6,7) by (simp add: get_cached_fst c t)
qed

lemma distinct_evict:
  "distinct (map fst c) \<Longrightarrow> evict cap c = Inr c' \<Longrightarrow> distinct (map fst c')"
  by (auto simp: evict_def distinct_dict_del split: if_splits sum.splits)

lemma set_cached_distinct:
  assumes "distinct (map fst (stats_cache m))"
  shows "distinct (map fst (stats_cache (snd (set_cached t k v m))))"
proof -
  have "distinct (map fst (purge (CACHE_TTL m) t (stats_cache m)))"
    using assms by (rule distinct_purge)
  then show ?thesis
    by (auto simp: set_cached_cache distinct_dict_set split: sum.splits dest: distinct_evict)
qed

lemma get_cached_distinct:
  "distinct (map fst (stats_cache m)) \<Longrightarrow>
   distinct (map fst (stats_cache (snd (get_cached t k m))))"
  by (auto simp: get_cached_def Let_def distinct_dict_del split: option.splits)

lemma set_cached_result:
  assumes "distinct (map fst (stats_cache m))" and "0 < MAX_CACHE_SIZE m"
  shows "\<exists>c2. set_cached now k val m =
             (Inr (), m\<lparr>stats_cache := dict_set k (val, now) c2,
                        trace := trace m @ [Cache_write k]\<rparr>)
           \<and> (let c1 = purge (CACHE_TTL m) now (stats_cache m)
              in if int (length c1) < MAX_CACHE_SIZE m then c2 = c1
                 else \<exists>old \<in> set c1. (\<forall>e \<in> set c1. snd (snd old) \<le> snd (snd e))
                        \<and> c2 = dict_del (fst old) c1 \<and> length c2 + 1 = length c1)"
proof (cases "int (length (purge (CACHE_TTL m) now (stats_cache m))) < MAX_CACHE_SIZE m")
  case True
  then show ?thesis
    by (simp add: set_cached_def Let_def evict_room)
next
  case False
  let ?c1 = "purge (CACHE_TTL m) now (stats_cache m)"
  have "distinct (map fst ?c1)" using assms(1) by (rule distinct_purge)
  from evict_oldest[OF this assms(2)] False
  obtain old where old: "old \<in> set ?c1" "\<forall>e \<in> set ?c1. snd (snd old) \<le> snd (snd e)"
      "evict (MAX_CACHE_SIZE m) ?c1 = Inr (dict_del (fst old) ?c1)"
      "length (dict_del (fst old) ?c1) + 1 = length ?c1"
    by (metis not_less)
  have "set_cached now k val m =
             (Inr (), m\<lparr>stats_cache := dict_set k (val, now) (dict_del (fst old) ?c1),
                        trace := trace m @ [Cache_write k]\<rparr>)"
    using old(3) by (simp add: set_cached_def Let_def)
  with old False show ?thesis by (auto simp: Let_def)
qed

text \<open>
  C7. A lookup returns the stored value exactly when the key is present and
  \<open>now - inserted_at < TTL\<close>, so an entry that has reached its time to live is never
  returned. A store first drops every entry with \<open>now - inserted_at \<ge> TTL\<close>; if the
  size is still at or over the capacity it removes exactly one entry, one whose insertion
  time is least, and then stores the new entry. With capacity 2, three distinct keys stored
  in sequence leave the first one absent and the two later ones retrievable while they are
  younger than the time to live. The keys of the cache stay distinct, as those of a
  dictionary are.
\<close>

theorem result_cache_policy:
  assumes "distinct (map fst (stats_cache m))" and "0 < MAX_CACHE_SIZE m"
  shows "((fst (get_cached now k m) = Some v) =
            (\<exists>ts. map_of (stats_cache m) k = Some (v, ts) \<and> float_sub now ts < CACHE_TTL m))
       \<and> set (purge (CACHE_TTL m) now (stats_cache m)) =
            {e \<in> set (stats_cache m). float_sub now (snd (snd e)) < CACHE_TTL m}
       \<and> (\<exists>c2. set_cached now k val m =
             (Inr (), m\<lparr>stats_cache := dict_set k (val, now) c2,
                        trace := trace m @ [Cache_write k]\<rparr>)
           \<and> (let c1 = purge (CACHE_TTL m) now (stats_cache m)
              in if int (length c1) < MAX_CACHE_SIZE m then c2 = c1
                 else \<exists>old \<in> set c1. (\<forall>e \<in> set c1. snd (snd old) \<le> snd (snd e))
                        \<and> c2 = dict_del (fst old) c1 \<and> length c2 + 1 = length c1))
       \<and> distinct (map fst (stats_cache (snd (set_cached now k val m))))
       \<and> distinct (map fst (stats_cache (snd (get_cached now k m))))
       \<and> (k1 \<noteq> k2 \<and> k1 \<noteq> k3 \<and> k2 \<noteq> k3 \<and> t1 \<le> t2 \<and> float_sub t3 t2 < CACHE_TTL m
            \<and> float_sub r t2 < CACHE_TTL m \<and> float_sub r t3 < CACHE_TTL m \<longrightarrow>
          (let m3 = snd (set_cached t3 k3 v3 (snd (set_cached t2 k2 v2 (snd (set_cached t1 k1 v1
                      (m\<lparr>stats_cache := [], MAX_CACHE_SIZE := 2\<rparr>))))))
           in fst (get_cached r k1 m3) = None \<and> fst (get_cached r k2 m3) = Some v2
              \<and> fst (get_cached r k3 m3) = Some v3))"
proof (intro conjI)
  show "(fst (get_cached now k m) = Some v) =
            (\<exists>ts. map_of (stats_cache m) k = Some (v, ts) \<and> float_sub now ts < CACHE_TTL m)"
    by (auto simp: get_cached_fst split: option.splits)
  show "set (purge (CACHE_TTL m) now (stats_cache m)) =
            {e \<in> set (stats_cache m). float_sub now (snd (snd e)) < CACHE_TTL m}"
    by (rule purge_set)
  show "\<exists>c2. set_cached now k val m =
             (Inr (), m\<lparr>stats_cache := dict_set k (val, now) c2,
                        trace := trace m @ [Cache_write k]\<rparr>)
           \<and> (let c1 = purge (CACHE_TTL m) now (stats_cache m)
              in if int (length c1) < MAX_CACHE_SIZE m then c2 = c1
                 else \<exists>old \<in> set c1. (\<forall>e \<in> set c1. snd (snd old) \<le> snd (snd e))
                        \<and> c2 = dict_del (fst old) c1 \<and> length c2 + 1 = length c1)"
    using assms by (rule set_cached_result)
  show "distinct (map fst (stats_cache (snd (set_cached now k val m))))"
    using assms(1) by (rule set_cached_distinct)
  show "distinct (map fst (stats_cache (snd (get_cached now k m))))"
    using assms(1) by (rule get_cached_distinct)
  show "k1 \<noteq> k2 \<and> k1 \<noteq> k3 \<and> k2 \<noteq> k3 \<and> t1 \<le> t2 \<and> float_sub t3 t2 < CACHE_TTL m
            \<and> float_sub r t2 < CACHE_TTL m \<and> float_sub r t3 < CACHE_TTL m \<longrightarrow>
          (let m3 = snd (set_cached t3 k3 v3 (snd (set_cached t2 k2 v2 (snd (set_cached t1 k1 v1
                      (m\<lparr>stats_cache := [], MAX_CACHE_SIZE := 2\<rparr>))))))
           in fst (get_cached r k1 m3) = None \<and> fst (get_cached r k2 m3) = Some v2
              \<and> fst (get_cached r k3 m3) = Some v3)"
    unfolding Let_def using three_inserts[OF _ _ _ _ _ _ _ refl, of k1 k2 k3 t1 t2 t3 m r v3 v2 v1]
    by blast
qed

lemma float_sub_small: "float_sub 10 0 = 10" "float_sub 3 2 = 1" "float_sub 4 2 = 2" "float_sub 4 3 = 1"
  unfolding float_sub_def by code_simp+

theorem result_cache_policy_witness:
  "distinct (map fst (stats_cache small_manager)) \<and> 0 < MAX_CACHE_SIZE small_manager
   \<and> fst (get_cached 10 key_a small_manager) = Some [(''has_data'', PBool False)]
   \<and> key_a \<noteq> key_b \<and> key_a \<noteq> key_c \<and> key_b \<noteq> key_c \<and> (1::rat) \<le> 2
   \<and> float_sub 3 2 < CACHE_TTL small_manager \<and> float_sub 4 2 < CACHE_TTL small_manager
   \<and> float_sub 4 3 < CACHE_TTL small_manager
   \<and> fst (get_cached 4 key_a (snd (set_cached 3 key_c [] (snd (set_cached 2 key_b []
        (snd (set_cached 1 key_a [] (small_manager\<lparr>stats_cache := [], MAX_CACHE_SIZE := 2\<rparr>)))))))) = None"
  using result_cache_policy [of small_manager 10 key_a "[(''has_data'', PBool False)]" "[]"
          key_a key_b key_c 1 2 3 4 "[]" "[]" "[]"]
  by (simp add: small_manager_def key_a_def key_b_def key_c_def float_sub_small Let_def)


subsection \<open>Requests rejected before any work\<close>

text \<open>
  C8. On an initialized manager, \<^verbatim>\<open>get_creator_stats\<close> with a creator number outside 1..19
  returns the error dictionary of the range check for every period request, whatever the
  storage holds or whether it answers at all, and leaves the manager as it was: its trace
  gains no storage query. This is the case of creator 20 with the all-time period.
\<close>

theorem invalid_owner_handle_rejected:
  assumes "initialized m" and "creator_id < 1 \<or> 19 < creator_id"
  shows "get_creator_stats st creator_id period_type start_date end_date m =
           (Inr [(''error'', PText Creator_id_range)], m)"
  using assms by (auto simp: get_creator_stats_def)

theorem invalid_owner_handle_rejected_witness:
  "initialized manager_2023 \<and> ((20::int) < 1 \<or> (19::int) < 20)
   \<and> get_creator_stats None 20 ALL_TIME None None manager_2023 =
       (Inr [(''error'', PText Creator_id_range)], manager_2023)
   \<and> trace (snd (get_creator_stats None 20 ALL_TIME None None manager_2023)) = []"
  using invalid_owner_handle_rejected [of manager_2023 20 None ALL_TIME None None]
  by (simp add: manager_2023_def)

lemma month_cases:
  "1 \<le> (m::int) \<Longrightarrow> m \<le> 12 \<Longrightarrow>
     m = 1 \<or> m = 2 \<or> m = 3 \<or> m = 4 \<or> m = 5 \<or> m = 6 \<or> m = 7 \<or> m = 8 \<or> m = 9 \<or> m = 10
     \<or> m = 11 \<or> m = 12"
  by arith

lemma days_in_month_ge_28: "1 \<le> m \<Longrightarrow> m \<le> 12 \<Longrightarrow> 28 \<le> days_in_month y m"
  by (drule (1) month_cases) (auto simp: days_in_month_def days_in_month_tab_def)

text \<open>
  C10. On an initialized manager, a daily or weekly request for a date outside the target
  year, a monthly request for a month of another year, and a custom request that passed
  the end-before-start check and has an endpoint outside the target year all return the
  out-of-range dictionary: \<open>has_data\<close> is false, the period type is \<open>out_of_range\<close>, and
  the other fields are the requested dates and the target year. The manager is returned
  unchanged, so the cache is neither read nor written and no query is issued, and the
  result does not depend on the clock or the storage. A custom request whose end is before
  its start gets the error dictionary of that check, whatever its years.
\<close>

theorem out_of_range_requests:
  assumes "initialized m" and "data_period m = Some p"
  shows "(year d \<noteq> target_year p \<longrightarrow>
            get_daily_stats t_get t_set st d m = (Inr (create_out_of_range_response p d d), m)
          \<and> get_weekly_stats t_get t_set st d m = (Inr (create_out_of_range_response p d d), m))
       \<and> (y \<noteq> target_year p \<and> 1 \<le> y \<and> y \<le> 9999 \<and> 1 \<le> mon \<and> mon \<le> 12 \<longrightarrow>
            get_monthly_stats t_get t_set st y mon m =
              (Inr (create_out_of_range_response p
                      \<lparr>year = y, month = mon, day = 1, hour = 0, minute = 0, second = 0,
                         microsecond = 0\<rparr>
                      \<lparr>year = y, month = mon, day = 28, hour = 0, minute = 0, second = 0,
                         microsecond = 0\<rparr>), m))
       \<and> (\<not> dt_lt ed sd \<and> (year sd \<noteq> target_year p \<or> year ed \<noteq> target_year p) \<longrightarrow>
            get_custom_period_stats t_get t_set st sd ed m =
              (Inr (create_out_of_range_response p sd ed), m))
       \<and> (dt_lt ed sd \<longrightarrow>
            get_custom_period_stats t_get t_set st sd ed m =
              (Inr [(''error'', PText End_before_start)], m))
       \<and> create_out_of_range_response p a b =
            [(''period_type'', PStr ''out_of_range''), (''start_date'', PDatetime a),
             (''end_date'', PDatetime b), (''has_data'', PBool False),
             (''message'', PText (Period_out_of_range (target_year p))),
             (''target_year'', PInt (target_year p))]"
proof (intro conjI impI)
  assume "year d \<noteq> target_year p"
  then show "get_daily_stats t_get t_set st d m = (Inr (create_out_of_range_response p d d), m)"
    using assms by (simp add: get_daily_stats_def)
next
  assume "year d \<noteq> target_year p"
  then show "get_weekly_stats t_get t_set st d m = (Inr (create_out_of_range_response p d d), m)"
    using assms by (simp add: get_weekly_stats_def)
next
  assume a: "y \<noteq> target_year p \<and> 1 \<le> y \<and> y \<le> 9999 \<and> 1 \<le> mon \<and> mon \<le> 12"
  have dim: "28 \<le> days_in_month y mon"
    using a by (simp add: days_in_month_ge_28)
  show "get_monthly_stats t_get t_set st y mon m =
              (Inr (create_out_of_range_response p
                      \<lparr>year = y, month = mon, day = 1, hour = 0, minute = 0, second = 0,
                         microsecond = 0\<rparr>
                      \<lparr>year = y, month = mon, day = 28, hour = 0, minute = 0, second = 0,
                         microsecond = 0\<rparr>), m)"
    using assms a dim
    by (simp add: get_monthly_stats_def mk_datetime_def valid_datetime_def valid_date_def Let_def)
next
  assume "\<not> dt_lt ed sd \<and> (year sd \<noteq> target_year p \<or> year ed \<noteq> target_year p)"
  then show "get_custom_period_stats t_get t_set st sd ed m =
              (Inr (create_out_of_range_response p sd ed), m)"
    using assms by (auto simp: get_custom_period_stats_def)
next
  assume "dt_lt ed sd"
  then show "get_custom_period_stats t_get t_set st sd ed m =
              (Inr [(''error'', PText End_before_start)], m)"
    using assms by (simp add: get_custom_period_stats_def)
next
  show "create_out_of_range_response p a b =
            [(''period_type'', PStr ''out_of_range''), (''start_date'', PDatetime a),
             (''end_date'', PDatetime b), (''has_data'', PBool False),
             (''message'', PText (Period_out_of_range (target_year p))),
             (''target_year'', PInt (target_year p))]"
    by (simp add: create_out_of_range_response_def)
qed

theorem out_of_range_requests_witness:
  "initialized manager_2023 \<and> data_period manager_2023 = Some (initial_data_period 2023)
   \<and> year (day_start 2022 5 17) \<noteq> target_year (initial_data_period 2023)
   \<and> get_daily_stats 0 0 None (day_start 2022 5 17) manager_2023 =
       (Inr (create_out_of_range_response (initial_data_period 2023) (day_start 2022 5 17)
               (day_start 2022 5 17)), manager_2023)
   \<and> get_weekly_stats 0 0 None (day_start 2022 5 17) manager_2023 =
       (Inr (create_out_of_range_response (initial_data_period 2023) (day_start 2022 5 17)
               (day_start 2022 5 17)), manager_2023)
   \<and> (2022::int) \<noteq> target_year (initial_data_period 2023)
   \<and> get_monthly_stats 0 0 None 2022 5 manager_2023 =
       (Inr (create_out_of_range_response (initial_data_period 2023) (day_start 2022 5 1)
               (day_start 2022 5 28)), manager_2023)
   \<and> \<not> dt_lt (day_start 2024 1 2) (day_start 2023 12 30)
   \<and> year (day_start 2024 1 2) \<noteq> target_year (initial_data_period 2023)
   \<and> get_custom_period_stats 0 0 None (day_start 2023 12 30) (day_start 2024 1 2) manager_2023 =
       (Inr (create_out_of_range_response (initial_data_period 2023) (day_start 2023 12 30)
               (day_start 2024 1 2)), manager_2023)
   \<and> dt_lt (day_start 2022 3 1) (day_start 2022 5 1)
   \<and> get_custom_period_stats 0 0 None (day_start 2022 5 1) (day_start 2022 3 1) manager_2023 =
       (Inr [(''error'', PText End_before_start)], manager_2023)"
  using out_of_range_requests [of manager_2023 "initial_data_period 2023" "day_start 2022 5 17"
          0 0 None 2022 5 "day_start 2024 1 2" "day_start 2023 12 30"]
    out_of_range_requests [of manager_2023 "initial_data_period 2023" "day_start 2022 5 17"
          0 0 None 2022 5 "day_start 2022 3 1" "day_start 2022 5 1"]
  by (simp add: manager_2023_def initial_data_period_def day_start_def dt_lt_def dt_tuple_def)

subsection \<open>Results of the period statistics\<close>

lemma cache_sound_filter: "cache_sound p c \<Longrightarrow> cache_sound p (filter P c)"
  by (simp add: cache_sound_def list_all_iff)

lemma cache_sound_dict_del: "cache_sound p c \<Longrightarrow> cache_sound p (dict_del k c)"
  by (simp add: dict_del_def cache_sound_filter)

lemma cache_sound_dict_set:
  "cache_sound p c \<Longrightarrow> entry_sound p (k, v) \<Longrightarrow> cache_sound p (dict_set k v c)"
  by (induction c) (auto simp: cache_sound_def)

lemma cache_sound_lookup:
  "cache_sound p c \<Longrightarrow> map_of c k = Some v \<Longrightarrow> entry_sound p (k, v)"
  by (auto simp: cache_sound_def list_all_iff dest!: map_of_SomeD)

lemma cache_sound_evict:
  "cache_sound p c \<Longrightarrow> evict cap c = Inr c' \<Longrightarrow> cache_sound p c'"
  by (auto simp: evict_def cache_sound_dict_del split: if_splits sum.splits)

lemma get_cached_sound:
  "cache_sound p (stats_cache m) \<Longrightarrow> cache_sound p (stats_cache (snd (get_cached t k m)))"
  by (auto simp: get_cached_def Let_def cache_sound_dict_del split: option.splits)

lemma get_cached_fields:
  "CACHE_TTL (snd (get_cached t k m)) = CACHE_TTL m"
  "MAX_CACHE_SIZE (snd (get_cached t k m)) = MAX_CACHE_SIZE m"
  "data_period (snd (get_cached t k m)) = data_period m"
  "initialized (snd (get_cached t k m)) = initialized m"
  by (auto simp: get_cached_def Let_def split: option.splits)

lemma set_cached_sound:
  assumes "cache_sound p (stats_cache m)" and "entry_sound p (k, v, t)"
  shows "cache_sound p (stats_cache (snd (set_cached t k v m)))"
proof -
  have "cache_sound p (purge (CACHE_TTL m) t (stats_cache m))"
    using assms(1) by (simp add: purge_def cache_sound_filter)
  then show ?thesis
    using assms(2)
    by (auto simp: set_cached_cache cache_sound_dict_set split: sum.splits dest: cache_sound_evict)
qed

lemma set_cached_ok:
  "0 < MAX_CACHE_SIZE m \<Longrightarrow> fst (set_cached t k v m) = Inr ()"
  by (auto simp: set_cached_def Let_def evict_def py_min_def split: sum.splits list.splits)

lemma store_and_return_ok:
  "0 < MAX_CACHE_SIZE m \<Longrightarrow> fst (store_and_return t k v m) = Inr v"
  using set_cached_ok[of m t k v]
  by (auto simp: store_and_return_def split: prod.splits sum.splits)

lemma store_and_return_snd:
  "snd (store_and_return t k v m) = snd (set_cached t k v m)"
  by (auto simp: store_and_return_def split: prod.splits sum.splits)


lemma fetch_videos_fields:
  "stats_cache (snd (fetch_videos_in_period st s e m)) = stats_cache m"
  "CACHE_TTL (snd (fetch_videos_in_period st s e m)) = CACHE_TTL m"
  "MAX_CACHE_SIZE (snd (fetch_videos_in_period st s e m)) = MAX_CACHE_SIZE m"
  "data_period (snd (fetch_videos_in_period st s e m)) = data_period m"
  by (auto simp: fetch_videos_in_period_def Let_def split: option.splits)

lemma no_data_fields:
  "map_of (create_no_data_response p s e pt dt) ''data_type'' = Some (PStr (data_value dt))"
  "map_of (create_no_data_response p s e pt dt) ''has_data'' = Some (PBool False)"
  "map_of (create_no_data_response p s e pt dt) ''views_gained'' = None"
  by (simp_all add: create_no_data_response_def)

lemma aggregate_video_fields:
  assumes "aggregate_video_stats p vs s e pt dt = Inr r"
  shows "map_of r ''data_type'' = Some (PStr (data_value dt))"
    and "map_of r ''has_data'' = Some (PBool True)"
  using assms by (auto simp: aggregate_video_stats_def Let_def split: sum.splits)

lemma entry_sound_no_data:
  "entry_sound p ((pv, s, e), create_no_data_response p s e pt (get_period_type p s e), t)"
  by (simp add: entry_sound_def no_data_fields)

lemma entry_sound_aggregate:
  "get_period_type p s e \<noteq> NONE \<Longrightarrow>
   aggregate_video_stats p vs s e pt (get_period_type p s e) = Inr r \<Longrightarrow>
   entry_sound p ((pv, s, e), r, t)"
  by (simp add: entry_sound_def aggregate_video_fields)

lemma calculate_sound:
  assumes "cache_sound p (stats_cache m)" and "data_period m = Some p"
  shows "cache_sound p (stats_cache (snd (calculate_stats_for_period tg ts st s e pt m)))"
proof -
  let ?k = "(period_value pt, s, e)"
  obtain c m1 where g: "get_cached tg ?k m = (c, m1)" by (cases "get_cached tg ?k m")
  have m1: "cache_sound p (stats_cache m1)" "data_period m1 = Some p"
    using get_cached_sound[OF assms(1), of tg ?k] get_cached_fields(3)[of tg ?k m] g assms(2)
    by simp_all
  show ?thesis
  proof (cases c)
    case (Some v)
    then show ?thesis using g m1 by (simp add: calculate_stats_for_period_def)
  next
    case None
    show ?thesis
    proof (cases "get_period_type p s e = NONE")
      case True
      have "cache_sound p (stats_cache (snd (set_cached ts ?k
              (create_no_data_response p s e pt (get_period_type p s e)) m1)))"
        by (rule set_cached_sound[OF m1(1) entry_sound_no_data])
      then show ?thesis
        using g None m1 True
        by (simp add: calculate_stats_for_period_def store_and_return_snd)
    next
      case False
      obtain f m2 where f: "fetch_videos_in_period st s e m1 = (f, m2)"
        by (cases "fetch_videos_in_period st s e m1")
      have m2: "cache_sound p (stats_cache m2)"
        using fetch_videos_fields(1)[of st s e m1] f m1 by simp
      show ?thesis
      proof (cases f)
        case (Inl err)
        then show ?thesis using g None m1 False f m2 by (simp add: calculate_stats_for_period_def)
      next
        case (Inr vs)
        show ?thesis
        proof (cases "vs = []")
          case True
          have "cache_sound p (stats_cache (snd (set_cached ts ?k
                  (create_no_data_response p s e pt (get_period_type p s e)) m2)))"
            by (rule set_cached_sound[OF m2 entry_sound_no_data])
          then show ?thesis
            using g None m1 False f Inr True
            by (simp add: calculate_stats_for_period_def store_and_return_snd)
        next
          case nonempty: False
          show ?thesis
          proof (cases "aggregate_video_stats p vs s e pt (get_period_type p s e)")
            case (Inl err)
            then show ?thesis using g None m1 False f \<open>f = Inr vs\<close> nonempty m2
              by (simp add: calculate_stats_for_period_def)
          next
            case (Inr r)
            have "cache_sound p (stats_cache (snd (set_cached ts ?k r m2)))"
              by (rule set_cached_sound[OF m2 entry_sound_aggregate[OF False Inr]])
            then show ?thesis
              using g None m1 False f \<open>f = Inr vs\<close> nonempty Inr
              by (simp add: calculate_stats_for_period_def store_and_return_snd)
          qed
        qed
      qed
    qed
  qed
qed


lemma calculate_hit:
  "get_cached tg (period_value pt, s, e) m = (Some v, m1) \<Longrightarrow>
   calculate_stats_for_period tg ts st s e pt m = (Inr v, m1)"
  by (simp add: calculate_stats_for_period_def)

lemma calculate_miss_none:
  assumes "get_cached tg (period_value pt, s, e) m = (None, m1)" and "data_period m = Some p"
    and "get_period_type p s e = NONE"
  shows "calculate_stats_for_period tg ts st s e pt m =
           store_and_return ts (period_value pt, s, e)
             (create_no_data_response p s e pt NONE) m1"
proof -
  have "data_period m1 = Some p"
    using get_cached_fields(3)[of tg "(period_value pt, s, e)" m] assms(1,2) by simp
  then show ?thesis using assms by (simp add: calculate_stats_for_period_def)
qed

lemma calculate_miss_fetch:
  assumes "get_cached tg (period_value pt, s, e) m = (None, m1)" and "data_period m = Some p"
    and "get_period_type p s e \<noteq> NONE"
  shows "calculate_stats_for_period tg ts st s e pt m =
           (case fetch_videos_in_period st s e m1 of
              (Inl err, m2) \<Rightarrow> (Inl err, m2)
            | (Inr videos, m2) \<Rightarrow>
                if videos = []
                then store_and_return ts (period_value pt, s, e)
                       (create_no_data_response p s e pt (get_period_type p s e)) m2
                else (case aggregate_video_stats p videos s e pt (get_period_type p s e) of
                        Inl err \<Rightarrow> (Inl err, m2)
                      | Inr result \<Rightarrow> store_and_return ts (period_value pt, s, e) result m2))"
proof -
  have "data_period m1 = Some p"
    using get_cached_fields(3)[of tg "(period_value pt, s, e)" m] assms(1,2) by simp
  then show ?thesis using assms by (simp add: calculate_stats_for_period_def Let_def)
qed

lemma calculate_result_sound:
  assumes "cache_sound p (stats_cache m)" and "data_period m = Some p"
    and "fst (calculate_stats_for_period tg ts st s e pt m) = Inr r"
  shows "entry_sound p ((period_value pt, s, e), r, t)"
proof -
  let ?k = "(period_value pt, s, e)"
  obtain c m1 where g: "get_cached tg ?k m = (c, m1)" by (cases "get_cached tg ?k m")
  show ?thesis
  proof (cases c)
    case (Some v)
    with g assms(3) have "v = r" by (simp add: calculate_hit)
    moreover from g Some obtain t0 where "map_of (stats_cache m) ?k = Some (v, t0)"
      by (auto simp: get_cached_def Let_def split: option.splits if_splits)
    ultimately have "entry_sound p (?k, r, t0)"
      using cache_sound_lookup[OF assms(1)] by simp
    then show ?thesis by (simp add: entry_sound_def)
  next
    case None
    show ?thesis
    proof (cases "get_period_type p s e = NONE")
      case True
      note u = calculate_miss_none[OF g[unfolded None] assms(2) True, of ts st]
      from assms(3) have "r = create_no_data_response p s e pt NONE"
        unfolding u by (auto simp: store_and_return_def split: prod.splits sum.splits)
      then show ?thesis using True entry_sound_no_data[of p "period_value pt" s e pt t] by simp
    next
      case False
      note u = calculate_miss_fetch[OF g[unfolded None] assms(2) False, of ts st]
      from assms(3) show ?thesis
        unfolding u
        by (auto simp: store_and_return_def entry_sound_no_data entry_sound_aggregate[OF False]
            split: prod.splits sum.splits if_splits)
    qed
  qed
qed

lemma calculate_none_returns:
  assumes "cache_sound p (stats_cache m)" and "data_period m = Some p"
    and "0 < MAX_CACHE_SIZE m" and "get_period_type p s e = NONE"
  shows "\<exists>r. fst (calculate_stats_for_period tg ts st s e pt m) = Inr r"
proof -
  let ?k = "(period_value pt, s, e)"
  obtain c m1 where g: "get_cached tg ?k m = (c, m1)" by (cases "get_cached tg ?k m")
  show ?thesis
  proof (cases c)
    case (Some v)
    with g show ?thesis by (simp add: calculate_hit)
  next
    case None
    have "MAX_CACHE_SIZE m1 = MAX_CACHE_SIZE m"
      using get_cached_fields(2)[of tg ?k m] g by simp
    with assms(3) have "0 < MAX_CACHE_SIZE m1" by simp
    then show ?thesis
      using calculate_miss_none[OF g[unfolded None] assms(2,4), of ts st]
      by (simp add: store_and_return_ok)
  qed
qed


lemma store_and_return_fields:
  "data_period (snd (store_and_return t k v m)) = data_period m"
  "MAX_CACHE_SIZE (snd (store_and_return t k v m)) = MAX_CACHE_SIZE m"
  "CACHE_TTL (snd (store_and_return t k v m)) = CACHE_TTL m"
  by (simp_all add: store_and_return_snd set_cached_fields)

lemma calculate_fields:
  "data_period (snd (calculate_stats_for_period tg ts st s e pt m)) = data_period m
   \<and> MAX_CACHE_SIZE (snd (calculate_stats_for_period tg ts st s e pt m)) = MAX_CACHE_SIZE m
   \<and> CACHE_TTL (snd (calculate_stats_for_period tg ts st s e pt m)) = CACHE_TTL m"
proof -
  let ?k = "(period_value pt, s, e)"
  obtain c m1 where g: "get_cached tg ?k m = (c, m1)" by (cases "get_cached tg ?k m")
  have m1: "data_period m1 = data_period m" "MAX_CACHE_SIZE m1 = MAX_CACHE_SIZE m"
      "CACHE_TTL m1 = CACHE_TTL m"
    using get_cached_fields[of tg ?k m] g by simp_all
  obtain f m2 where f: "fetch_videos_in_period st s e m1 = (f, m2)"
    by (cases "fetch_videos_in_period st s e m1")
  have m2: "data_period m2 = data_period m" "MAX_CACHE_SIZE m2 = MAX_CACHE_SIZE m"
      "CACHE_TTL m2 = CACHE_TTL m"
    using fetch_videos_fields[of st s e m1] f m1 by simp_all
  show ?thesis
    using g f m1 m2
    by (simp add: calculate_stats_for_period_def Let_def store_and_return_fields
        split: option.splits sum.splits)
qed

lemma out_of_range_fields:
  "map_of (create_out_of_range_response p a b) ''data_type'' = None"
  "map_of (create_out_of_range_response p a b) ''has_data'' = Some (PBool False)"
  by (simp_all add: create_out_of_range_response_def)

lemma aggregate_creator_fields:
  "aggregate_creator_stats p c vs s e pt = Inr r \<Longrightarrow> map_of r ''data_type'' = None"
  by (auto simp: aggregate_creator_stats_def Let_def split: sum.splits)

lemma creator_result_untyped:
  assumes "fst (get_creator_stats st c pt sd ed m) = Inr r"
  shows "map_of r ''data_type'' = None"
  using assms
  by (auto simp: get_creator_stats_def Let_def aggregate_creator_fields
      split: if_splits sum.splits option.splits error.splits prod.splits)


lemma get_cached_miss_state:
  "fst (get_cached tg k m) = None \<Longrightarrow> \<exists>m1. get_cached tg k m = (None, m1)
     \<and> MAX_CACHE_SIZE m1 = MAX_CACHE_SIZE m \<and> data_period m1 = data_period m"
  using get_cached_fields[of tg k m] by (cases "get_cached tg k m") simp

text \<open>
  C2. The classifier returns one of the four regimes for every pair of instants, and
  \<open>NONE\<close> exactly when \<open>end \<le> video_creation_start\<close> or \<open>start \<ge> stats_end\<close>. For a
  period classified \<open>NONE\<close>, \<^verbatim>\<open>_calculate_stats_for_period\<close> returns a dictionary whose
  \<open>has_data\<close> is false, whether the result is computed or comes from the cache; the
  call leaves the cache in a state of which the same holds again.
\<close>

theorem classifier_total_none_has_no_data:
  assumes "cache_sound p (stats_cache m)" and "data_period m = Some p"
    and "0 < MAX_CACHE_SIZE m"
  shows "((get_period_type p s e = NONE) =
            (dt_le e (video_creation_start p) \<or> dt_le (stats_end p) s))
       \<and> (get_period_type p s e = NONE \<or> get_period_type p s e = VIDEO_CREATION
          \<or> get_period_type p s e = STATS_ONLY \<or> get_period_type p s e = MIXED)
       \<and> (get_period_type p s e = NONE \<longrightarrow>
            result_field (calculate_stats_for_period tg ts st s e pt m) ''has_data''
              = Some (PBool False))
       \<and> cache_sound p (stats_cache (snd (calculate_stats_for_period tg ts st s e pt m)))
       \<and> data_period (snd (calculate_stats_for_period tg ts st s e pt m)) = Some p
       \<and> MAX_CACHE_SIZE (snd (calculate_stats_for_period tg ts st s e pt m)) = MAX_CACHE_SIZE m"
proof (intro conjI impI)
  show "(get_period_type p s e = NONE) =
            (dt_le e (video_creation_start p) \<or> dt_le (stats_end p) s)"
    by (simp add: get_period_type_def)
  show "get_period_type p s e = NONE \<or> get_period_type p s e = VIDEO_CREATION
          \<or> get_period_type p s e = STATS_ONLY \<or> get_period_type p s e = MIXED"
    by (cases "get_period_type p s e") simp_all
  show "cache_sound p (stats_cache (snd (calculate_stats_for_period tg ts st s e pt m)))"
    using assms(1,2) by (rule calculate_sound)
  show "data_period (snd (calculate_stats_for_period tg ts st s e pt m)) = Some p"
    using assms(2) by (simp add: calculate_fields)
  show "MAX_CACHE_SIZE (snd (calculate_stats_for_period tg ts st s e pt m)) = MAX_CACHE_SIZE m"
    by (simp add: calculate_fields)
next
  assume n: "get_period_type p s e = NONE"
  from calculate_none_returns[OF assms n] obtain r
    where r: "fst (calculate_stats_for_period tg ts st s e pt m) = Inr r" by blast
  from calculate_result_sound[OF assms(1,2) r, of 0] n
  have "map_of r ''has_data'' = Some (PBool False)" by (simp add: entry_sound_def)
  with r show "result_field (calculate_stats_for_period tg ts st s e pt m) ''has_data''
              = Some (PBool False)"
    by (simp add: result_field_def)
qed

theorem classifier_total_none_has_no_data_witness:
  "cache_sound (initial_data_period 2023) (stats_cache manager_2023)
   \<and> data_period manager_2023 = Some (initial_data_period 2023)
   \<and> 0 < MAX_CACHE_SIZE manager_2023
   \<and> get_period_type (initial_data_period 2023) (day_start 2023 1 1) (day_start 2023 2 1) = NONE
   \<and> result_field (calculate_stats_for_period 0 0 None (day_start 2023 1 1) (day_start 2023 2 1)
         CUSTOM manager_2023) ''has_data'' = Some (PBool False)"
  using classifier_total_none_has_no_data [of "initial_data_period 2023" manager_2023
          "day_start 2023 1 1" "day_start 2023 2 1" 0 0 None CUSTOM]
  by (simp add: manager_2023_def cache_sound_def get_period_type_def initial_data_period_def
      day_start_def dt_le_def dt_tuple_def)

lemma cache_agrees_filter: "cache_agrees p db c \<Longrightarrow> cache_agrees p db (filter P c)"
  by (simp add: cache_agrees_def list_all_iff)

lemma cache_agrees_dict_del: "cache_agrees p db c \<Longrightarrow> cache_agrees p db (dict_del k c)"
  by (simp add: dict_del_def cache_agrees_filter)

lemma cache_agrees_dict_set:
  "cache_agrees p db c \<Longrightarrow> entry_agrees p db (k, v) \<Longrightarrow> cache_agrees p db (dict_set k v c)"
  by (induction c) (auto simp: cache_agrees_def)

lemma cache_agrees_lookup:
  "cache_agrees p db c \<Longrightarrow> map_of c k = Some v \<Longrightarrow> entry_agrees p db (k, v)"
  by (auto simp: cache_agrees_def list_all_iff dest!: map_of_SomeD)

lemma cache_agrees_evict:
  "cache_agrees p db c \<Longrightarrow> evict cap c = Inr c' \<Longrightarrow> cache_agrees p db c'"
  by (auto simp: evict_def cache_agrees_dict_del split: if_splits sum.splits)

lemma get_cached_agrees:
  "cache_agrees p db (stats_cache m) \<Longrightarrow> cache_agrees p db (stats_cache (snd (get_cached t k m)))"
  by (auto simp: get_cached_def Let_def cache_agrees_dict_del split: option.splits)

lemma set_cached_agrees:
  assumes "cache_agrees p db (stats_cache m)" and "entry_agrees p db (k, v, t)"
  shows "cache_agrees p db (stats_cache (snd (set_cached t k v m)))"
proof -
  have "cache_agrees p db (purge (CACHE_TTL m) t (stats_cache m))"
    using assms(1) by (simp add: purge_def cache_agrees_filter)
  then show ?thesis
    using assms(2)
    by (auto simp: set_cached_cache cache_agrees_dict_set split: sum.splits
        dest: cache_agrees_evict)
qed

lemma entry_agrees_no_data:
  "entry_agrees p db ((pv, s, e), create_no_data_response p s e pt dt, t)"
  by (simp add: entry_agrees_def no_data_fields)

lemma entry_agrees_rows:
  "videos_in_period_joined p db s e \<noteq> [] \<Longrightarrow> entry_agrees p db ((pv, s, e), r, t)"
  by (simp add: entry_agrees_def)

lemma store_agrees:
  assumes "cache_agrees p db (stats_cache m)" and "entry_agrees p db (k, v, t)"
  shows "cache_agrees p db (stats_cache (snd (store_and_return t k v m)))"
  using set_cached_agrees[OF assms] by (simp add: store_and_return_snd)

lemma calculate_agrees:
  assumes "cache_agrees p db (stats_cache m)" and "data_period m = Some p"
    and "st = Some db \<or> st = None"
  shows "cache_agrees p db (stats_cache (snd (calculate_stats_for_period tg ts st s e pt m)))"
proof -
  let ?k = "(period_value pt, s, e)"
  obtain c m1 where g: "get_cached tg ?k m = (c, m1)" by (cases "get_cached tg ?k m")
  have m1: "cache_agrees p db (stats_cache m1)" "data_period m1 = Some p"
    using get_cached_agrees[OF assms(1), of tg ?k] get_cached_fields(3)[of tg ?k m] g assms(2)
    by simp_all
  show ?thesis
  proof (cases c)
    case (Some v)
    then show ?thesis using g m1 by (simp add: calculate_hit)
  next
    case None
    show ?thesis
    proof (cases "get_period_type p s e = NONE")
      case True
      show ?thesis
        unfolding calculate_miss_none[OF g[unfolded None] assms(2) True]
        by (rule store_agrees[OF m1(1) entry_agrees_no_data])
    next
      case False
      note u = calculate_miss_fetch[OF g[unfolded None] assms(2) False, of ts st]
      show ?thesis
      proof (cases st)
        case none: None
        then show ?thesis
          unfolding u using m1 by (simp add: fetch_videos_in_period_def Let_def)
      next
        case (Some db')
        with assms(3) have st: "st = Some db" by simp
        let ?m2 = "m1\<lparr>trace := trace m1 @ [Storage_query]\<rparr>"
        have f: "fetch_videos_in_period st s e m1 =
                   (Inr (map snd (videos_in_period_joined p db s e)), ?m2)"
          using st m1(2) by (simp add: fetch_videos_in_period_def Let_def)
        have m2: "cache_agrees p db (stats_cache ?m2)" using m1(1) by simp
        show ?thesis
        proof (cases "videos_in_period_joined p db s e = []")
          case True
          then show ?thesis
            unfolding u f using store_agrees[OF m2 entry_agrees_no_data] by simp
        next
          case rows: False
          show ?thesis
          proof (cases "aggregate_video_stats p (map snd (videos_in_period_joined p db s e))
                          s e pt (get_period_type p s e)")
            case (Inl err)
            then show ?thesis unfolding u f using rows m2 by simp
          next
            case (Inr r)
            then show ?thesis
              unfolding u f using rows store_agrees[OF m2 entry_agrees_rows[OF rows]] by simp
          qed
        qed
      qed
    qed
  qed
qed

lemma public_methods_agree:
  assumes "cache_agrees p db (stats_cache m)" and "data_period m = Some p"
    and "st = Some db \<or> st = None"
  shows "cache_agrees p db (stats_cache (snd (get_daily_stats tg ts st d m)))"
    and "cache_agrees p db (stats_cache (snd (get_weekly_stats tg ts st d m)))"
    and "cache_agrees p db (stats_cache (snd (get_monthly_stats tg ts st y mon m)))"
    and "cache_agrees p db (stats_cache (snd (get_custom_period_stats tg ts st d d' m)))"
  using assms(1,2) calculate_agrees[OF assms]
  by (auto simp: get_daily_stats_def get_weekly_stats_def get_monthly_stats_def
      get_custom_period_stats_def split: sum.splits prod.splits)

lemma creator_keeps_cache:
  "stats_cache (snd (get_creator_stats st c pt sd ed m)) = stats_cache m"
  by (auto simp: get_creator_stats_def fetch_creator_videos_in_period_def Let_def
      split: if_splits sum.splits option.splits error.splits prod.splits)

lemma calculate_empty_miss:
  assumes "fst (get_cached tg (period_value pt, s, e) m) = None"
    and "data_period m = Some p" and "0 < MAX_CACHE_SIZE m"
    and "videos_in_period_joined p db s e = []"
  shows "fst (calculate_stats_for_period tg ts (Some db) s e pt m) =
              Inr (create_no_data_response p s e pt (get_period_type p s e))"
proof -
  from get_cached_miss_state[OF assms(1)] obtain m1
    where g: "get_cached tg (period_value pt, s, e) m = (None, m1)"
      and cap: "MAX_CACHE_SIZE m1 = MAX_CACHE_SIZE m" and dp: "data_period m1 = data_period m"
    by blast
  show ?thesis
  proof (cases "get_period_type p s e = NONE")
    case True
    then show ?thesis
      using calculate_miss_none[OF g assms(2) True, of ts "Some db"] cap assms(3)
      by (simp add: store_and_return_ok)
  next
    case False
    then show ?thesis
      using calculate_miss_fetch[OF g assms(2) False, of ts "Some db"] assms(2,3,4) cap dp
      by (simp add: fetch_videos_in_period_def Let_def store_and_return_ok)
  qed
qed

lemma calculate_down_miss:
  assumes "fst (get_cached tg (period_value pt, s, e) m) = None"
    and "data_period m = Some p" and "get_period_type p s e \<noteq> NONE"
  shows "fst (calculate_stats_for_period tg ts None s e pt m) = Inl StorageUnavailable"
proof -
  from get_cached_miss_state[OF assms(1)] obtain m1
    where g: "get_cached tg (period_value pt, s, e) m = (None, m1)"
    by blast
  show ?thesis
    using calculate_miss_fetch[OF g assms(2,3), of ts None]
    by (simp add: fetch_videos_in_period_def Let_def)
qed

lemma calculate_hit_value:
  "fst (get_cached tg (period_value pt, s, e) m) = Some v \<Longrightarrow>
   fst (calculate_stats_for_period tg ts st s e pt m) = Inr v"
  by (cases "get_cached tg (period_value pt, s, e) m") (simp add: calculate_hit)

lemma calculate_empty_agrees:
  assumes "cache_agrees p db (stats_cache m)"
    and "data_period m = Some p" and "0 < MAX_CACHE_SIZE m"
    and "videos_in_period_joined p db s e = []"
  shows "\<exists>r. fst (calculate_stats_for_period tg ts (Some db) s e pt m) = Inr r
           \<and> map_of r ''has_data'' = Some (PBool False) \<and> map_of r ''views_gained'' = None"
proof (cases "fst (get_cached tg (period_value pt, s, e) m)")
  case None
  show ?thesis
    using calculate_empty_miss[OF None assms(2,3,4)] by (simp add: no_data_fields)
next
  case (Some v)
  then obtain t0 where "map_of (stats_cache m) (period_value pt, s, e) = Some (v, t0)"
    by (auto simp: get_cached_def Let_def split: option.splits if_splits)
  then have "entry_agrees p db ((period_value pt, s, e), v, t0)"
    by (rule cache_agrees_lookup[OF assms(1)])
  then show ?thesis
    using calculate_hit_value[OF Some] assms(4) by (simp add: entry_agrees_def)
qed

lemma creator_empty:
  assumes "data_period m = Some p" and "initialized m" and "1 \<le> c" and "c \<le> 19"
    and "(if pt = ALL_TIME then Inr (Some (video_creation_start p, stats_end p))
          else calculate_period_bounds sd pt ed) = Inr (Some (s, e))"
  shows "creator_videos_in_period_joined p db c s e = [] \<Longrightarrow>
         fst (get_creator_stats (Some db) c pt sd ed m) =
           Inr [(''human_id'', PInt c), (''has_data'', PBool False),
                (''message'', PText No_data_for_period)]"
    and "fst (get_creator_stats None c pt sd ed m) = Inl StorageUnavailable"
  using assms
  by (auto simp: get_creator_stats_def fetch_creator_videos_in_period_def Let_def
      split: if_splits)

text \<open>
  C6, as the code has it. Let the manager have a data period and a positive capacity.

  When the result is computed, that is when the lookup in the cache misses, and the query
  returns no row, \<^verbatim>\<open>_calculate_stats_for_period\<close> returns the no-data dictionary: a
  normal return whose \<open>has_data\<close> is false and which has no \<open>views_gained\<close> field, not a
  success filled with zeros and not an exception. A storage failure on the same path is a
  raised \<open>StorageUnavailable\<close>, so the two outcomes differ.

  When the lookup hits, the cached dictionary is returned as it is, whatever the storage
  holds. So the result for a period without rows is a no-data result, hit or miss, as long
  as the cache agrees with the database: this holds of the empty cache and is kept by
  every public method while the storage holds that database or is unavailable.

  \<^verbatim>\<open>get_creator_stats\<close> has no cache: for every kind of period whose bounds resolve, no
  row gives its no-data dictionary and an unavailable storage gives \<open>StorageUnavailable\<close>.
\<close>

theorem empty_tuple_set_is_no_data:
  assumes "data_period m = Some p" and "0 < MAX_CACHE_SIZE m"
  shows "(fst (get_cached tg (period_value pt, s, e) m) = None
            \<and> videos_in_period_joined p db s e = [] \<longrightarrow>
            fst (calculate_stats_for_period tg ts (Some db) s e pt m) =
              Inr (create_no_data_response p s e pt (get_period_type p s e)))
       \<and> map_of (create_no_data_response p s e pt (get_period_type p s e)) ''has_data''
            = Some (PBool False)
       \<and> map_of (create_no_data_response p s e pt (get_period_type p s e)) ''views_gained''
            = None
       \<and> (fst (get_cached tg (period_value pt, s, e) m) = None
            \<and> get_period_type p s e \<noteq> NONE \<longrightarrow>
            fst (calculate_stats_for_period tg ts None s e pt m) = Inl StorageUnavailable)
       \<and> (\<forall>v. fst (get_cached tg (period_value pt, s, e) m) = Some v \<longrightarrow>
             fst (calculate_stats_for_period tg ts st s e pt m) = Inr v)
       \<and> cache_agrees p db []
       \<and> (cache_agrees p db (stats_cache m) \<and> (st = Some db \<or> st = None) \<longrightarrow>
            cache_agrees p db (stats_cache (snd (calculate_stats_for_period tg ts st s e pt m)))
            \<and> cache_agrees p db (stats_cache (snd (get_daily_stats tg ts st d m)))
            \<and> cache_agrees p db (stats_cache (snd (get_weekly_stats tg ts st d m)))
            \<and> cache_agrees p db (stats_cache (snd (get_monthly_stats tg ts st y mon m)))
            \<and> cache_agrees p db (stats_cache (snd (get_custom_period_stats tg ts st d d' m)))
            \<and> cache_agrees p db (stats_cache (snd (get_creator_stats st c pt sd ed m))))
       \<and> (cache_agrees p db (stats_cache m) \<and> videos_in_period_joined p db s e = [] \<longrightarrow>
            (\<exists>r. fst (calculate_stats_for_period tg ts (Some db) s e pt m) = Inr r
                \<and> map_of r ''has_data'' = Some (PBool False)
                \<and> map_of r ''views_gained'' = None))
       \<and> (initialized m \<and> 1 \<le> c \<and> c \<le> 19
            \<and> (if pt = ALL_TIME then Inr (Some (video_creation_start p, stats_end p))
                else calculate_period_bounds sd pt ed) = Inr (Some (s', e'))
          \<longrightarrow> (creator_videos_in_period_joined p db c s' e' = [] \<longrightarrow>
                  fst (get_creator_stats (Some db) c pt sd ed m) =
                    Inr [(''human_id'', PInt c), (''has_data'', PBool False),
                         (''message'', PText No_data_for_period)])
               \<and> fst (get_creator_stats None c pt sd ed m) = Inl StorageUnavailable)"
proof (intro conjI impI allI)
  assume "fst (get_cached tg (period_value pt, s, e) m) = None
            \<and> videos_in_period_joined p db s e = []"
  then show "fst (calculate_stats_for_period tg ts (Some db) s e pt m) =
              Inr (create_no_data_response p s e pt (get_period_type p s e))"
    using calculate_empty_miss[OF _ assms] by simp
next
  assume "fst (get_cached tg (period_value pt, s, e) m) = None \<and> get_period_type p s e \<noteq> NONE"
  then show "fst (calculate_stats_for_period tg ts None s e pt m) = Inl StorageUnavailable"
    using calculate_down_miss[OF _ assms(1)] by simp
next
  fix v assume "fst (get_cached tg (period_value pt, s, e) m) = Some v"
  then show "fst (calculate_stats_for_period tg ts st s e pt m) = Inr v"
    by (rule calculate_hit_value)
next
  assume a: "cache_agrees p db (stats_cache m) \<and> (st = Some db \<or> st = None)"
  then have inv: "cache_agrees p db (stats_cache m)" and st: "st = Some db \<or> st = None"
    by simp_all
  show "cache_agrees p db (stats_cache (snd (calculate_stats_for_period tg ts st s e pt m)))"
    by (rule calculate_agrees[OF inv assms(1) st])
  show "cache_agrees p db (stats_cache (snd (get_daily_stats tg ts st d m)))"
    by (rule public_methods_agree(1)[OF inv assms(1) st])
  show "cache_agrees p db (stats_cache (snd (get_weekly_stats tg ts st d m)))"
    by (rule public_methods_agree(2)[OF inv assms(1) st])
  show "cache_agrees p db (stats_cache (snd (get_monthly_stats tg ts st y mon m)))"
    by (rule public_methods_agree(3)[OF inv assms(1) st])
  show "cache_agrees p db (stats_cache (snd (get_custom_period_stats tg ts st d d' m)))"
    by (rule public_methods_agree(4)[OF inv assms(1) st])
  show "cache_agrees p db (stats_cache (snd (get_creator_stats st c pt sd ed m)))"
    using inv by (simp only: creator_keeps_cache)
next
  assume "cache_agrees p db (stats_cache m) \<and> videos_in_period_joined p db s e = []"
  then show "\<exists>r. fst (calculate_stats_for_period tg ts (Some db) s e pt m) = Inr r
                \<and> map_of r ''has_data'' = Some (PBool False)
                \<and> map_of r ''views_gained'' = None"
    using calculate_empty_agrees[OF _ assms] by simp
next
  assume a: "initialized m \<and> 1 \<le> c \<and> c \<le> 19
            \<and> (if pt = ALL_TIME then Inr (Some (video_creation_start p, stats_end p))
                else calculate_period_bounds sd pt ed) = Inr (Some (s', e'))"
  show "fst (get_creator_stats None c pt sd ed m) = Inl StorageUnavailable"
    using a creator_empty(2)[OF assms(1)] by simp
  assume "creator_videos_in_period_joined p db c s' e' = []"
  then show "fst (get_creator_stats (Some db) c pt sd ed m) =
                    Inr [(''human_id'', PInt c), (''has_data'', PBool False),
                         (''message'', PText No_data_for_period)]"
    using a creator_empty(1)[OF assms(1)] by simp
qed (simp_all add: no_data_fields cache_agrees_def)

lemma scenario_day_eval:
  "fst (get_cached 0 (period_value DAY, day_start 2023 9 2, day_start 2023 9 3) manager_2023) = None"
  "videos_in_period_joined (initial_data_period 2023) scenario_b_store
     (day_start 2023 9 2) (day_start 2023 9 3) = []"
  "get_period_type (initial_data_period 2023) (day_start 2023 9 2) (day_start 2023 9 3)
     = VIDEO_CREATION"
  "creator_videos_in_period_joined (initial_data_period 2023) scenario_b_store 2
     (day_start 2023 9 2) (day_start 2023 9 3) = []"
  "calculate_period_bounds (Some (day_start 2023 9 2)) DAY None
     = Inr (Some (day_start 2023 9 2, day_start 2023 9 3))"
  "fst (get_cached 10 (period_value DAY, day_start 2023 9 2, day_start 2023 9 3)
     (snd (calculate_stats_for_period 0 0 (Some scenario_b_store) (day_start 2023 9 2)
        (day_start 2023 9 3) DAY manager_2023))) \<noteq> None"
  by code_simp+

theorem empty_tuple_set_is_no_data_witness:
  "data_period manager_2023 = Some (initial_data_period 2023)
   \<and> 0 < MAX_CACHE_SIZE manager_2023
   \<and> fst (get_cached 0 (period_value DAY, day_start 2023 9 2, day_start 2023 9 3) manager_2023)
        = None
   \<and> videos_in_period_joined (initial_data_period 2023) scenario_b_store
        (day_start 2023 9 2) (day_start 2023 9 3) = []
   \<and> result_field (calculate_stats_for_period 0 0 (Some scenario_b_store) (day_start 2023 9 2)
         (day_start 2023 9 3) DAY manager_2023) ''has_data'' = Some (PBool False)
   \<and> get_period_type (initial_data_period 2023) (day_start 2023 9 2) (day_start 2023 9 3)
        \<noteq> NONE
   \<and> fst (calculate_stats_for_period 0 0 None (day_start 2023 9 2) (day_start 2023 9 3) DAY
         manager_2023) = Inl StorageUnavailable
   \<and> cache_agrees (initial_data_period 2023) scenario_b_store (stats_cache manager_2023)
   \<and> cache_agrees (initial_data_period 2023) scenario_b_store
        (stats_cache (snd (calculate_stats_for_period 0 0 (Some scenario_b_store)
           (day_start 2023 9 2) (day_start 2023 9 3) DAY manager_2023)))
   \<and> fst (get_cached 10 (period_value DAY, day_start 2023 9 2, day_start 2023 9 3)
        (snd (calculate_stats_for_period 0 0 (Some scenario_b_store) (day_start 2023 9 2)
           (day_start 2023 9 3) DAY manager_2023))) \<noteq> None
   \<and> result_field (calculate_stats_for_period 10 10 (Some scenario_b_store) (day_start 2023 9 2)
        (day_start 2023 9 3) DAY
        (snd (calculate_stats_for_period 0 0 (Some scenario_b_store) (day_start 2023 9 2)
           (day_start 2023 9 3) DAY manager_2023))) ''has_data'' = Some (PBool False)
   \<and> initialized manager_2023
   \<and> calculate_period_bounds (Some (day_start 2023 9 2)) DAY None
        = Inr (Some (day_start 2023 9 2, day_start 2023 9 3))
   \<and> creator_videos_in_period_joined (initial_data_period 2023) scenario_b_store 2
        (day_start 2023 9 2) (day_start 2023 9 3) = []
   \<and> result_field (get_creator_stats (Some scenario_b_store) 2 DAY (Some (day_start 2023 9 2))
        None manager_2023) ''has_data'' = Some (PBool False)
   \<and> fst (get_creator_stats None 2 DAY (Some (day_start 2023 9 2)) None manager_2023)
        = Inl StorageUnavailable"
proof -
  let ?p = "initial_data_period 2023"
  let ?s = "day_start 2023 9 2"
  let ?e = "day_start 2023 9 3"
  let ?m1 = "snd (calculate_stats_for_period 0 0 (Some scenario_b_store) ?s ?e DAY manager_2023)"
  have h: "data_period manager_2023 = Some ?p" "0 < MAX_CACHE_SIZE manager_2023"
      "initialized manager_2023" "cache_agrees ?p scenario_b_store (stats_cache manager_2023)"
    by (simp_all add: manager_2023_def cache_agrees_def)
  have h1: "data_period ?m1 = Some ?p" "0 < MAX_CACHE_SIZE ?m1"
    using calculate_fields[of 0 0 "Some scenario_b_store" ?s ?e DAY manager_2023] h(1,2)
    by simp_all
  note first = empty_tuple_set_is_no_data [OF h(1,2), where tg = 0 and ts = 0 and pt = DAY
      and s = ?s and e = ?e and db = scenario_b_store and st = "Some scenario_b_store"
      and c = 2 and sd = "Some ?s" and ed = None and s' = ?s and e' = ?e
      and d = ?s and d' = ?e and y = 2023 and mon = 9]
  note second = empty_tuple_set_is_no_data [OF h1, where tg = 10 and ts = 10 and pt = DAY
      and s = ?s and e = ?e and db = scenario_b_store and st = "Some scenario_b_store"
      and c = 2 and sd = "Some ?s" and ed = None and s' = ?s and e' = ?e
      and d = ?s and d' = ?e and y = 2023 and mon = 9]
  have inv1: "cache_agrees ?p scenario_b_store (stats_cache ?m1)"
    using first h(4) by simp
  have hit: "result_field (calculate_stats_for_period 10 10 (Some scenario_b_store) ?s ?e DAY ?m1)
               ''has_data'' = Some (PBool False)"
    using second inv1 scenario_day_eval(2) by (auto simp: result_field_def)
  show ?thesis
    using first h inv1 hit scenario_day_eval by (simp add: result_field_def no_data_fields)
qed

text \<open>
  C6 as stated fails for a result taken from the cache. The daily request for 2023-11-03
  is answered at time 0 from a store in which the video gained 100 views on that day, and
  the result is cached. A snapshot observed on 2023-11-02 with the same 100 views then
  reaches the store, so the query has no row for the day any more. The same request 299
  seconds later finds the entry alive and returns it: \<open>has_data\<close> is true and
  \<open>views_gained\<close> is 100, although the tuple set of the period is empty.
\<close>

theorem cached_result_outlives_its_tuple_set:
  "videos_in_period_joined (initial_data_period 2023) scenario_late_store
     (day_start 2023 11 3) (day_start 2023 11 4) = []
   \<and> result_field (calculate_stats_for_period 299 299 (Some scenario_late_store)
        (day_start 2023 11 3) (day_start 2023 11 4) DAY
        (snd (calculate_stats_for_period 0 0 (Some scenario_early_store)
           (day_start 2023 11 3) (day_start 2023 11 4) DAY manager_2023))) ''has_data''
      = Some (PBool True)
   \<and> result_field (calculate_stats_for_period 299 299 (Some scenario_late_store)
        (day_start 2023 11 3) (day_start 2023 11 4) DAY
        (snd (calculate_stats_for_period 0 0 (Some scenario_early_store)
           (day_start 2023 11 3) (day_start 2023 11 4) DAY manager_2023))) ''views_gained''
      = Some (PInt 100)
   \<and> result_field (get_daily_stats 299 299 (Some scenario_late_store) (day_start 2023 11 3)
        (snd (get_daily_stats 0 0 (Some scenario_early_store) (day_start 2023 11 3)
           manager_2023))) ''has_data'' = Some (PBool True)"
  by code_simp

lemma calculate_data_type:
  assumes "cache_sound p (stats_cache m)" and "data_period m = Some p"
    and "fst (calculate_stats_for_period tg ts st s e pt m) = Inr r"
  shows "map_of r ''data_type'' = Some (PStr (data_value (get_period_type p s e)))"
  using calculate_result_sound[OF assms, of 0] by (simp add: entry_sound_def)

text \<open>
  C9, as the code has it. Every dictionary returned by \<^verbatim>\<open>_calculate_stats_for_period\<close>,
  and so every result of a daily, weekly, monthly or custom request inside the target
  year, carries \<open>data_type\<close>, the classification of its resolved period, also when
  \<open>has_data\<close> is false. The out-of-range dictionary and every dictionary returned by
  \<^verbatim>\<open>get_creator_stats\<close> have no \<open>data_type\<close> field.
\<close>

theorem data_type_field_where_classified:
  assumes "cache_sound p (stats_cache m)" and "data_period m = Some p"
  shows "(fst (calculate_stats_for_period tg ts st s e pt m) = Inr r \<longrightarrow>
            map_of r ''data_type'' = Some (PStr (data_value (get_period_type p s e))))
       \<and> (year d = target_year p \<and> fst (get_daily_stats tg ts st d m) = Inr r1 \<longrightarrow>
            (\<exists>s1 e1. calculate_day_bounds d = Inr (s1, e1)
               \<and> map_of r1 ''data_type'' = Some (PStr (data_value (get_period_type p s1 e1)))))
       \<and> (year d = target_year p \<and> fst (get_weekly_stats tg ts st d m) = Inr r2 \<longrightarrow>
            (\<exists>s2 e2. calculate_week_bounds d = Inr (s2, e2)
               \<and> map_of r2 ''data_type'' = Some (PStr (data_value (get_period_type p s2 e2)))))
       \<and> (y = target_year p \<and> fst (get_monthly_stats tg ts st y mon m) = Inr r3 \<longrightarrow>
            (\<exists>s3 e3. calculate_month_bounds y mon = Inr (s3, e3)
               \<and> map_of r3 ''data_type'' = Some (PStr (data_value (get_period_type p s3 e3)))))
       \<and> (\<not> dt_lt ed sd \<and> year sd = target_year p \<and> year ed = target_year p
            \<and> fst (get_custom_period_stats tg ts st sd ed m) = Inr r4 \<longrightarrow>
            (\<exists>e4. add_days (midnight ed) 1 = Inr e4
               \<and> map_of r4 ''data_type''
                   = Some (PStr (data_value (get_period_type p (midnight sd) e4)))))
       \<and> map_of (create_out_of_range_response p a b) ''data_type'' = None
       \<and> (fst (get_creator_stats st c pt' sd' ed' m) = Inr r' \<longrightarrow> map_of r' ''data_type'' = None)"
proof (intro conjI impI)
  assume "fst (calculate_stats_for_period tg ts st s e pt m) = Inr r"
  with assms show "map_of r ''data_type'' = Some (PStr (data_value (get_period_type p s e)))"
    by (rule calculate_data_type)
next
  assume a: "year d = target_year p \<and> fst (get_daily_stats tg ts st d m) = Inr r1"
  then obtain s1 e1 where b: "calculate_day_bounds d = Inr (s1, e1)"
      and c: "fst (calculate_stats_for_period tg ts st s1 e1 DAY m) = Inr r1"
    using assms(2)
    by (auto simp: get_daily_stats_def split: if_splits sum.splits)
  from calculate_data_type[OF assms c] b
  show "\<exists>s1 e1. calculate_day_bounds d = Inr (s1, e1)
               \<and> map_of r1 ''data_type'' = Some (PStr (data_value (get_period_type p s1 e1)))"
    by blast
next
  assume a: "year d = target_year p \<and> fst (get_weekly_stats tg ts st d m) = Inr r2"
  then obtain s2 e2 where b: "calculate_week_bounds d = Inr (s2, e2)"
      and c: "fst (calculate_stats_for_period tg ts st s2 e2 WEEK m) = Inr r2"
    using assms(2)
    by (auto simp: get_weekly_stats_def split: if_splits sum.splits)
  from calculate_data_type[OF assms c] b
  show "\<exists>s2 e2. calculate_week_bounds d = Inr (s2, e2)
               \<and> map_of r2 ''data_type'' = Some (PStr (data_value (get_period_type p s2 e2)))"
    by blast
next
  assume a: "y = target_year p \<and> fst (get_monthly_stats tg ts st y mon m) = Inr r3"
  then obtain s3 e3 where b: "calculate_month_bounds y mon = Inr (s3, e3)"
      and c: "fst (calculate_stats_for_period tg ts st s3 e3 MONTH m) = Inr r3"
    using assms(2)
    by (auto simp: get_monthly_stats_def split: if_splits sum.splits)
  from calculate_data_type[OF assms c] b
  show "\<exists>s3 e3. calculate_month_bounds y mon = Inr (s3, e3)
               \<and> map_of r3 ''data_type'' = Some (PStr (data_value (get_period_type p s3 e3)))"
    by blast
next
  assume a: "\<not> dt_lt ed sd \<and> year sd = target_year p \<and> year ed = target_year p
            \<and> fst (get_custom_period_stats tg ts st sd ed m) = Inr r4"
  then obtain e4 where b: "add_days (midnight ed) 1 = Inr e4"
      and c: "fst (calculate_stats_for_period tg ts st (midnight sd) e4 CUSTOM m) = Inr r4"
    using assms(2)
    by (auto simp: get_custom_period_stats_def split: if_splits sum.splits)
  from calculate_data_type[OF assms c] b
  show "\<exists>e4. add_days (midnight ed) 1 = Inr e4
               \<and> map_of r4 ''data_type''
                   = Some (PStr (data_value (get_period_type p (midnight sd) e4)))"
    by blast
next
  show "map_of (create_out_of_range_response p a b) ''data_type'' = None"
    by (rule out_of_range_fields)
next
  assume "fst (get_creator_stats st c pt' sd' ed' m) = Inr r'"
  then show "map_of r' ''data_type'' = None" by (rule creator_result_untyped)
qed

text \<open>
  C9 as stated fails: the result of a daily request for 2022-05-17, with target year 2023,
  is a dictionary without an \<open>error\<close> key, with \<open>has_data\<close> false, and without
  \<open>data_type\<close>.
\<close>

theorem out_of_range_result_has_no_data_type:
  "result_field (get_daily_stats 0 0 None (day_start 2022 5 17) manager_2023) ''has_data''
     = Some (PBool False)
   \<and> result_field (get_daily_stats 0 0 None (day_start 2022 5 17) manager_2023) ''error'' = None
   \<and> result_field (get_daily_stats 0 0 None (day_start 2022 5 17) manager_2023) ''data_type''
     = None"
  by (simp add: result_field_def get_daily_stats_def manager_2023_def initial_data_period_def
      day_start_def create_out_of_range_response_def)

lemma scenario_custom_eval:
  "fst (get_custom_period_stats 0 0 (Some scenario_b_store) (day_start 2023 1 1)
          (day_start 2023 1 31) manager_2023) =
     Inr (create_no_data_response (initial_data_period 2023) (day_start 2023 1 1)
            (day_start 2023 2 1) CUSTOM NONE)"
  "add_days (midnight (day_start 2023 1 31)) 1 = Inr (day_start 2023 2 1)"
  "get_period_type (initial_data_period 2023) (midnight (day_start 2023 1 1))
     (day_start 2023 2 1) = NONE"
  "dt_lt (day_start 2023 1 31) (day_start 2023 1 1) = False"
  "fst (get_creator_stats (Some scenario_b_store) 1 ALL_TIME None None manager_2023) =
     Inr [(''human_id'', PInt 1), (''period_type'', PStr ''all_time''),
          (''start_date'', PDatetime (video_creation_start (initial_data_period 2023))),
          (''end_date'', PDatetime (stats_end (initial_data_period 2023))),
          (''has_data'', PBool True), (''total_videos'', PInt 1),
          (''new_videos'', PInt 1), (''views_gained'', PInt 150),
          (''likes_gained'', PInt 0), (''engagement_rate'', PFloat 0),
          (''filters_applied'',
             filters_applied ''video_months'' ''stats_months'' (initial_data_period 2023))]"
  by code_simp+

theorem data_type_field_where_classified_witness:
  "cache_sound (initial_data_period 2023) (stats_cache manager_2023)
   \<and> data_period manager_2023 = Some (initial_data_period 2023)
   \<and> \<not> dt_lt (day_start 2023 1 31) (day_start 2023 1 1)
   \<and> year (day_start 2023 1 1) = target_year (initial_data_period 2023)
   \<and> year (day_start 2023 1 31) = target_year (initial_data_period 2023)
   \<and> fst (get_custom_period_stats 0 0 (Some scenario_b_store) (day_start 2023 1 1)
          (day_start 2023 1 31) manager_2023) =
       Inr (create_no_data_response (initial_data_period 2023) (day_start 2023 1 1)
              (day_start 2023 2 1) CUSTOM NONE)
   \<and> map_of (create_no_data_response (initial_data_period 2023) (day_start 2023 1 1)
              (day_start 2023 2 1) CUSTOM NONE) ''data_type'' = Some (PStr ''none'')
   \<and> result_field (get_creator_stats (Some scenario_b_store) 1 ALL_TIME None None manager_2023)
        ''has_data'' = Some (PBool True)
   \<and> result_field (get_creator_stats (Some scenario_b_store) 1 ALL_TIME None None manager_2023)
        ''data_type'' = None"
proof -
  have h: "cache_sound (initial_data_period 2023) (stats_cache manager_2023)"
      "data_period manager_2023 = Some (initial_data_period 2023)"
    by (simp_all add: manager_2023_def cache_sound_def)
  have y: "year (day_start 2023 1 1) = target_year (initial_data_period 2023)"
      "year (day_start 2023 1 31) = target_year (initial_data_period 2023)"
    by (simp_all add: day_start_def initial_data_period_def)
  from data_type_field_where_classified [OF h, where st = "Some scenario_b_store"
      and sd = "day_start 2023 1 1" and ed = "day_start 2023 1 31" and tg = 0 and ts = 0
      and c = 1 and pt' = ALL_TIME and sd' = None and ed' = None]
  show ?thesis
    using h y scenario_custom_eval by (simp add: result_field_def no_data_fields)
qed

subsection \<open>The rows of the two queries\<close>

lemma sql_max_None: "(sql_max xs = None) = (xs = [])"
  by (simp add: sql_max_def split: list.splits)

lemma sql_max_Some: "xs \<noteq> [] \<Longrightarrow> sql_max xs = Some (Max (set xs))"
  by (cases xs) (simp_all add: sql_max_def Max.set_eq_fold[symmetric])

lemma gained_nonneg: "0 \<le> gained col s e grp"
  by (simp add: gained_def)

lemma gained_Nil: "gained col s e [] = 0"
  by (simp add: gained_def max_before_def sql_max_def coalesce_def)

lemma filter_eq_remdups:
  "filter (\<lambda>j. j = i) (remdups xs) = (if i \<in> set xs then [i] else [])"
proof -
  have "distinct ys \<Longrightarrow> filter (\<lambda>j. j = i) ys = (if i \<in> set ys then [i] else [])" for ys :: "'a list"
    by (induction ys) auto
  from this[of "remdups xs"] show ?thesis by simp
qed

lemma stats_delta_lookup:
  "filter (\<lambda>(j, vg, lg). j = i) (stats_delta s e rows) =
     (let grp = filter (\<lambda>x. video_id x = i) rows;
          vg = gained views_count s e grp; lg = gained likes_count s e grp
      in if i \<in> video_id ` set rows \<and> (0 < vg \<or> 0 < lg) then [(i, vg, lg)] else [])"
proof -
  let ?G = "\<lambda>i. let grp = filter (\<lambda>s. video_id s = i) rows
                 in (i, gained views_count s e grp, gained likes_count s e grp)"
  let ?H = "\<lambda>(i, vg, lg). 0 < vg \<or> 0 < (lg::int)"
  have "filter (\<lambda>(j, vg, lg). j = i) (stats_delta s e rows) =
        filter ?H (filter (\<lambda>(j, vg, lg). j = i) (map ?G (remdups (map video_id rows))))"
    unfolding stats_delta_def by (simp add: conj_commute)
  also have "filter (\<lambda>(j, vg, lg). j = i) (map ?G (remdups (map video_id rows))) =
        map ?G (filter (\<lambda>j. j = i) (remdups (map video_id rows)))"
    by (simp add: filter_map o_def Let_def)
  finally have eq: "filter (\<lambda>(j, vg, lg). j = i) (stats_delta s e rows) =
        filter ?H (map ?G (filter (\<lambda>j. j = i) (remdups (map video_id rows))))" .
  show ?thesis
    unfolding eq by (simp add: filter_eq_remdups Let_def)
qed

lemma group_outside: "i \<notin> video_id ` set rows \<Longrightarrow> filter (\<lambda>x. video_id x = i) rows = []"
  by (auto simp: filter_empty_conv)

lemma left_join_stats_delta:
  "left_join mk (stats_delta s e rows) i new =
     (let grp = filter (\<lambda>x. video_id x = i) rows;
          vg = gained views_count s e grp; lg = gained likes_count s e grp
      in if 0 < vg \<or> 0 < lg \<or> new = 1 then [(i, mk new vg lg)] else [])"
proof -
  let ?grp = "filter (\<lambda>x. video_id x = i) rows"
  let ?vg = "gained views_count s e ?grp" and ?lg = "gained likes_count s e ?grp"
  show ?thesis
  proof (cases "i \<in> video_id ` set rows \<and> (0 < ?vg \<or> 0 < ?lg)")
    case True
    then show ?thesis
      by (auto simp: left_join_def stats_delta_lookup Let_def)
  next
    case False
    have z: "?vg = 0 \<and> ?lg = 0"
    proof (cases "i \<in> video_id ` set rows")
      case True
      with False have "?vg \<le> 0" "?lg \<le> 0" by auto
      then show ?thesis using gained_nonneg[of views_count s e ?grp]
          gained_nonneg[of likes_count s e ?grp] by simp
    next
      case False
      then show ?thesis by (simp add: group_outside gained_Nil)
    qed
    from False have "filter (\<lambda>(j, vg, lg). j = i) (stats_delta s e rows) = []"
      by (simp add: stats_delta_lookup Let_def)
    then show ?thesis using z by (simp add: left_join_def Let_def)
  qed
qed


lemma in_concat_map: "(y \<in> set (concat (map f xs))) = (\<exists>x \<in> set xs. y \<in> set (f x))"
  by auto

lemma videos_joined_iff:
  "((i, r) \<in> set (videos_in_period_joined p db s e)) =
     (\<exists>v \<in> set (table_videos db). \<exists>h.
        v_id v = i \<and> creator_human_number v = Some h
        \<and> sql_between (video_creation_start p) (video_creation_end p) (video_created_at v)
        \<and> 1 \<le> h \<and> h \<le> 19
        \<and> (0 < gained views_count s e (counter_group p db i)
            \<or> 0 < gained likes_count s e (counter_group p db i)
            \<or> created_in_period s e (video_created_at v) = 1)
        \<and> r = \<lparr>human_id = h, is_new = created_in_period s e (video_created_at v),
                 views_gained = gained views_count s e (counter_group p db i),
                 likes_gained = gained likes_count s e (counter_group p db i)\<rparr>)"
  unfolding videos_in_period_joined_def Let_def left_join_stats_delta counter_group_def
    in_concat_map
  by (intro bex_cong refl) (auto split: option.splits if_splits)

lemma creator_joined_iff:
  "((i, r) \<in> set (creator_videos_in_period_joined p db c s e)) =
     (\<exists>v \<in> set (table_videos db).
        v_id v = i \<and> creator_human_number v = Some c
        \<and> sql_between (video_creation_start p) (video_creation_end p) (video_created_at v)
        \<and> (0 < gained views_count s e (creator_counter_group p db c i)
            \<or> 0 < gained likes_count s e (creator_counter_group p db c i)
            \<or> created_in_period s e (video_created_at v) = 1)
        \<and> r = (created_in_period s e (video_created_at v),
                 gained views_count s e (creator_counter_group p db c i),
                 gained likes_count s e (creator_counter_group p db c i)))"
  unfolding creator_videos_in_period_joined_def Let_def left_join_stats_delta
    creator_counter_group_def in_concat_map
  by (intro bex_cong refl) (auto split: option.splits if_splits)

lemma set_map_filter: "set (List.map_filter f xs) = {v. \<exists>x \<in> set xs. f x = Some v}"
  by (induction xs) (auto split: option.splits)

lemma sql_before_mono: "dt_le s e \<Longrightarrow> sql_before s c \<Longrightarrow> sql_before e c"
  by (auto simp: sql_before_def dt_le_def dt_lt_def split: option.splits)

lemma max_before_upper:
  assumes "x \<in> set grp" and "sql_before t (created_at x)" and "col x = Some v"
  shows "v \<le> max_before col t grp"
proof -
  let ?vs = "List.map_filter col (filter (\<lambda>s. sql_before t (created_at s)) grp)"
  have v: "v \<in> set ?vs" using assms by (auto simp: set_map_filter)
  then have "?vs \<noteq> []" by auto
  then have "max_before col t grp = Max (set ?vs)"
    by (simp add: max_before_def sql_max_Some coalesce_def)
  with v show ?thesis by simp
qed

lemma gained_no_rise:
  assumes "dt_le s e" and "no_rise col s e grp"
  shows "gained col s e grp = 0"
proof -
  let ?vs = "\<lambda>t. List.map_filter col (filter (\<lambda>x. sql_before t (created_at x)) grp)"
  have bound: "v \<le> max_before col s grp" if "v \<in> set (?vs e)" for v
  proof -
    from that obtain x where x: "x \<in> set grp" "sql_before e (created_at x)" "col x = Some v"
      by (auto simp: set_map_filter)
    show ?thesis
    proof (cases "sql_before s (created_at x)")
      case True
      with x show ?thesis by (auto intro: max_before_upper)
    next
      case False
      with assms(2) x show ?thesis
        by (auto simp: no_rise_def list_all_iff split: if_splits option.splits)
    qed
  qed
  have "max_before col e grp \<le> max_before col s grp"
  proof (cases "?vs e = []")
    case True
    have "set (?vs s) \<subseteq> set (?vs e)"
      using sql_before_mono[OF assms(1)] by (auto simp: set_map_filter)
    with True have "?vs s = []" by simp
    with True show ?thesis by (simp add: max_before_def)
  next
    case False
    then have "max_before col e grp = Max (set (?vs e))"
      by (simp add: max_before_def sql_max_Some coalesce_def)
    with False bound show ?thesis by simp
  qed
  then show ?thesis by (simp add: gained_def)
qed

text \<open>
  C1. In every row of either query, each gain is
  \<open>max (before_end - before_start) 0\<close>, where \<open>before_end\<close> and \<open>before_start\<close> are the
  highest values among the video's counter-window snapshots observed before \<open>end\<close> and
  before \<open>start\<close> (0 when there is none); so no gain is negative. When no snapshot
  observed inside \<open>[start, end)\<close> reports more than the highest value observed before
  \<open>start\<close>, as when a later snapshot reports less than an earlier one, the gain is 0.
\<close>

theorem gain_is_clamped_difference:
  "((i, r) \<in> set (videos_in_period_joined p db s e) \<longrightarrow>
      views_gained r = max (max_before views_count e (counter_group p db i)
                            - max_before views_count s (counter_group p db i)) 0
      \<and> likes_gained r = max (max_before likes_count e (counter_group p db i)
                              - max_before likes_count s (counter_group p db i)) 0
      \<and> 0 \<le> views_gained r \<and> 0 \<le> likes_gained r)
   \<and> ((i, new, vg, lg) \<in> set (creator_videos_in_period_joined p db c s e) \<longrightarrow>
      vg = max (max_before views_count e (creator_counter_group p db c i)
                - max_before views_count s (creator_counter_group p db c i)) 0
      \<and> lg = max (max_before likes_count e (creator_counter_group p db c i)
                  - max_before likes_count s (creator_counter_group p db c i)) 0
      \<and> 0 \<le> vg \<and> 0 \<le> lg)
   \<and> (dt_le s e \<and> no_rise col s e grp \<longrightarrow> gained col s e grp = 0)"
proof (intro conjI impI)
  assume "(i, r) \<in> set (videos_in_period_joined p db s e)"
  then have r: "views_gained r = gained views_count s e (counter_group p db i)"
      "likes_gained r = gained likes_count s e (counter_group p db i)"
    by (auto simp: videos_joined_iff)
  from r show "views_gained r = max (max_before views_count e (counter_group p db i)
                            - max_before views_count s (counter_group p db i)) 0"
    by (simp add: gained_def)
  from r show "likes_gained r = max (max_before likes_count e (counter_group p db i)
                              - max_before likes_count s (counter_group p db i)) 0"
    by (simp add: gained_def)
  from r show "0 \<le> views_gained r" "0 \<le> likes_gained r"
    by (simp_all add: gained_nonneg)
next
  assume "(i, new, vg, lg) \<in> set (creator_videos_in_period_joined p db c s e)"
  then have r: "vg = gained views_count s e (creator_counter_group p db c i)"
      "lg = gained likes_count s e (creator_counter_group p db c i)"
    by (auto simp: creator_joined_iff)
  from r show "vg = max (max_before views_count e (creator_counter_group p db c i)
                - max_before views_count s (creator_counter_group p db c i)) 0"
    by (simp add: gained_def)
  from r show "lg = max (max_before likes_count e (creator_counter_group p db c i)
                  - max_before likes_count s (creator_counter_group p db c i)) 0"
    by (simp add: gained_def)
  from r show "0 \<le> vg" "0 \<le> lg"
    by (simp_all add: gained_nonneg)
next
  assume "dt_le s e \<and> no_rise col s e grp"
  then show "gained col s e grp = 0" by (simp add: gained_no_rise)
qed

lemma scenario_drop_eval:
  "videos_in_period_joined (initial_data_period 2023) scenario_drop_store
     (day_start 2023 11 3) (day_start 2023 11 4) =
     [(''D'', \<lparr>human_id = 3, is_new = 0, views_gained = 0, likes_gained = 1\<rparr>)]"
  "creator_videos_in_period_joined (initial_data_period 2023) scenario_drop_store 3
     (day_start 2023 11 3) (day_start 2023 11 4) = [(''D'', 0, 0, 1)]"
  "dt_le (day_start 2023 11 3) (day_start 2023 11 4)"
  "no_rise views_count (day_start 2023 11 3) (day_start 2023 11 4)
     (counter_group (initial_data_period 2023) scenario_drop_store ''D'')"
  "max_before views_count (day_start 2023 11 3)
     (counter_group (initial_data_period 2023) scenario_drop_store ''D'') = 100"
  "max_before views_count (day_start 2023 11 4)
     (counter_group (initial_data_period 2023) scenario_drop_store ''D'') = 100"
  by code_simp+

theorem gain_is_clamped_difference_witness:
  "(''D'', \<lparr>human_id = 3, is_new = 0, views_gained = 0, likes_gained = 1\<rparr>)
     \<in> set (videos_in_period_joined (initial_data_period 2023) scenario_drop_store
              (day_start 2023 11 3) (day_start 2023 11 4))
   \<and> (''D'', 0, 0, 1)
     \<in> set (creator_videos_in_period_joined (initial_data_period 2023) scenario_drop_store 3
              (day_start 2023 11 3) (day_start 2023 11 4))
   \<and> dt_le (day_start 2023 11 3) (day_start 2023 11 4)
   \<and> no_rise views_count (day_start 2023 11 3) (day_start 2023 11 4)
        (counter_group (initial_data_period 2023) scenario_drop_store ''D'')
   \<and> max_before views_count (day_start 2023 11 4)
        (counter_group (initial_data_period 2023) scenario_drop_store ''D'') = 100
   \<and> max_before views_count (day_start 2023 11 3)
        (counter_group (initial_data_period 2023) scenario_drop_store ''D'') = 100
   \<and> gained views_count (day_start 2023 11 3) (day_start 2023 11 4)
        (counter_group (initial_data_period 2023) scenario_drop_store ''D'') = 0"
  using gain_is_clamped_difference [where i = "''D''"
      and r = "\<lparr>human_id = 3, is_new = 0, views_gained = 0, likes_gained = 1\<rparr>"
      and p = "initial_data_period 2023" and db = scenario_drop_store
      and s = "day_start 2023 11 3" and e = "day_start 2023 11 4"
      and new = 0 and vg = 0 and lg = 1 and c = 3 and col = views_count
      and grp = "counter_group (initial_data_period 2023) scenario_drop_store ''D''"]
    scenario_drop_eval
  by simp

lemma concat_map_filter_cong:
  "(\<And>x. x \<in> set xs \<Longrightarrow> P x \<Longrightarrow> f x = g x) \<Longrightarrow> (\<And>x. x \<in> set xs \<Longrightarrow> \<not> P x \<Longrightarrow> g x = [])
   \<Longrightarrow> concat (map f (filter P xs)) = concat (map g xs)"
  by (induction xs) auto

lemma filter_concat_map: "filter Q (concat (map f xs)) = concat (map (\<lambda>x. filter Q (f x)) xs)"
  by (induction xs) auto

lemma snapshot_rows_without:
  "snapshot_rows p (without_video i db) = filter (\<lambda>s. video_id s \<noteq> i) (snapshot_rows p db)"
  by (simp add: snapshot_rows_def without_video_def conj_commute)

lemma group_without:
  "k \<noteq> i \<Longrightarrow> filter (\<lambda>x. video_id x = k) (snapshot_rows p (without_video i db)) =
     filter (\<lambda>x. video_id x = k) (snapshot_rows p db)"
  by (auto simp: snapshot_rows_without intro: filter_cong)

lemma creator_group_without:
  assumes "k \<noteq> i"
  shows "filter (\<lambda>x. video_id x = k) (creator_snapshot_rows p (without_video i db) c) =
     filter (\<lambda>x. video_id x = k) (creator_snapshot_rows p db c)"
proof -
  let ?C = "\<lambda>s v. video_id s = v_id v \<and> creator_human_number v = Some c
             \<and> sql_between (stats_start p) (stats_end p) (created_at s)"
  let ?inner = "\<lambda>vs s. filter (\<lambda>x. video_id x = k) (concat (map (\<lambda>v. if ?C s v then [s] else []) vs))"
  have inner: "?inner (filter (\<lambda>v. v_id v \<noteq> i) (table_videos db)) s = ?inner (table_videos db) s"
    for s :: snapshot
  proof -
    have a: "?inner vs s = concat (map (\<lambda>v. if ?C s v \<and> video_id s = k then [s] else []) vs)"
      for vs :: "video list"
      by (induction vs) auto
    have b: "concat (map (\<lambda>v. if ?C s v \<and> video_id s = k then [s] else [])
                     (filter (\<lambda>v. v_id v \<noteq> i) (table_videos db))) =
                   concat (map (\<lambda>v. if ?C s v \<and> video_id s = k then [s] else []) (table_videos db))"
      using assms by (intro concat_map_filter_cong) auto
    show ?thesis by (simp only: a b)
  qed
  have empty: "?inner vs s = []" if "video_id s = i"
    for vs :: "video list" and s :: snapshot
    using that assms by (induction vs) auto
  have "filter (\<lambda>x. video_id x = k) (creator_snapshot_rows p (without_video i db) c) =
        concat (map (?inner (filter (\<lambda>v. v_id v \<noteq> i) (table_videos db)))
                 (filter (\<lambda>s. video_id s \<noteq> i) (table_video_snapshots db)))"
    by (simp add: creator_snapshot_rows_def without_video_def filter_concat_map)
  also have "\<dots> = concat (map (?inner (table_videos db)) (table_video_snapshots db))"
  proof (rule concat_map_filter_cong)
    fix x :: snapshot
    show "?inner (filter (\<lambda>v. v_id v \<noteq> i) (table_videos db)) x = ?inner (table_videos db) x"
      by (rule inner)
  next
    fix x :: snapshot assume "\<not> video_id x \<noteq> i"
    then have "video_id x = i" by simp
    then show "?inner (table_videos db) x = []" by (rule empty)
  qed
  also have "\<dots> = filter (\<lambda>x. video_id x = k) (creator_snapshot_rows p db c)"
    by (simp add: creator_snapshot_rows_def filter_concat_map)
  finally show ?thesis .
qed

lemma videos_joined_without:
  assumes "no_signal p db i s e"
  shows "videos_in_period_joined p (without_video i db) s e = videos_in_period_joined p db s e"
proof -
  define F where "F = (\<lambda>rows (v::video).
       case creator_human_number v of
         None \<Rightarrow> []
       | Some h \<Rightarrow>
           if sql_between (video_creation_start p) (video_creation_end p) (video_created_at v)
              \<and> 1 \<le> h \<and> h \<le> 19
           then left_join (\<lambda>new vg lg. \<lparr>human_id = h, is_new = new, views_gained = vg,
                                           likes_gained = lg\<rparr>)
                  (stats_delta s e rows) (v_id v) (created_in_period s e (video_created_at v))
           else [])"
  have unf: "videos_in_period_joined p d s e = concat (map (F (snapshot_rows p d)) (table_videos d))"
    for d
    by (simp add: videos_in_period_joined_def F_def)
  have tv: "table_videos (without_video i db) = filter (\<lambda>v. v_id v \<noteq> i) (table_videos db)"
    by (simp add: without_video_def)
  show ?thesis
    unfolding unf tv
  proof (rule concat_map_filter_cong)
    fix v :: video assume "v_id v \<noteq> i"
    then show "F (snapshot_rows p (without_video i db)) v = F (snapshot_rows p db) v"
      using group_without[of "v_id v" i p db]
      by (simp add: F_def left_join_stats_delta split: option.splits)
  next
    fix v :: video assume "v \<in> set (table_videos db)" "\<not> v_id v \<noteq> i"
    with assms have "v_id v = i" "created_in_period s e (video_created_at v) = 0"
      "gained views_count s e (filter (\<lambda>x. video_id x = i) (snapshot_rows p db)) = 0"
      "gained likes_count s e (filter (\<lambda>x. video_id x = i) (snapshot_rows p db)) = 0"
      by (auto simp: no_signal_def list_all_iff counter_group_def)
    then show "F (snapshot_rows p db) v = []"
      by (simp add: F_def left_join_stats_delta split: option.splits)
  qed
qed

lemma creator_joined_without:
  assumes "creator_no_signal p db c i s e"
  shows "creator_videos_in_period_joined p (without_video i db) c s e =
         creator_videos_in_period_joined p db c s e"
proof -
  define F where "F = (\<lambda>rows (v::video).
       if creator_human_number v = Some c
          \<and> sql_between (video_creation_start p) (video_creation_end p) (video_created_at v)
       then left_join (\<lambda>new vg lg. (new, vg, lg)) (stats_delta s e rows) (v_id v)
              (created_in_period s e (video_created_at v))
       else [])"
  have unf: "creator_videos_in_period_joined p d c s e =
               concat (map (F (creator_snapshot_rows p d c)) (table_videos d))" for d
    by (simp add: creator_videos_in_period_joined_def F_def)
  have tv: "table_videos (without_video i db) = filter (\<lambda>v. v_id v \<noteq> i) (table_videos db)"
    by (simp add: without_video_def)
  show ?thesis
    unfolding unf tv
  proof (rule concat_map_filter_cong)
    fix v :: video assume "v_id v \<noteq> i"
    then show "F (creator_snapshot_rows p (without_video i db) c) v
                 = F (creator_snapshot_rows p db c) v"
      using creator_group_without[of "v_id v" i p db c]
      by (simp add: F_def left_join_stats_delta)
  next
    fix v :: video assume "v \<in> set (table_videos db)" "\<not> v_id v \<noteq> i"
    with assms have "v_id v = i" "created_in_period s e (video_created_at v) = 0"
      "gained views_count s e (filter (\<lambda>x. video_id x = i) (creator_snapshot_rows p db c)) = 0"
      "gained likes_count s e (filter (\<lambda>x. video_id x = i) (creator_snapshot_rows p db c)) = 0"
      by (auto simp: creator_no_signal_def list_all_iff creator_counter_group_def)
    then show "F (creator_snapshot_rows p db c) v = []"
      by (simp add: F_def left_join_stats_delta)
  qed
qed

lemma calculate_without:
  assumes "no_signal p db i s e" and "data_period m = Some p"
  shows "calculate_stats_for_period tg ts (Some (without_video i db)) s e pt m =
         calculate_stats_for_period tg ts (Some db) s e pt m"
proof -
  let ?k = "(period_value pt, s, e)"
  obtain c m1 where g: "get_cached tg ?k m = (c, m1)" by (cases "get_cached tg ?k m")
  have dp: "data_period m1 = Some p"
    using get_cached_fields(3)[of tg ?k m] g assms(2) by simp
  have f: "fetch_videos_in_period (Some (without_video i db)) s e m1 =
           fetch_videos_in_period (Some db) s e m1"
    using dp by (simp add: fetch_videos_in_period_def videos_joined_without[OF assms(1)])
  show ?thesis
  proof (cases c)
    case (Some v)
    with g show ?thesis by (simp add: calculate_hit)
  next
    case None
    show ?thesis
    proof (cases "get_period_type p s e = NONE")
      case True
      with g None assms(2) show ?thesis by (simp add: calculate_miss_none)
    next
      case False
      with g None assms(2) show ?thesis by (simp add: calculate_miss_fetch f)
    qed
  qed
qed

text \<open>
  C5. Every row of either query is new or has a positive gain. A video whose two gains are
  0 and that is not new in the period has no row, and the query returns the same rows as
  on the store without that video; so \<^verbatim>\<open>_calculate_stats_for_period\<close> returns the same
  result, with the same totals, creator count and top creators, as if the video and its
  snapshots did not exist.
\<close>

theorem no_signal_entities_dropped:
  "((i, r) \<in> set (videos_in_period_joined p db s e) \<longrightarrow>
      is_new r = 1 \<or> 0 < views_gained r \<or> 0 < likes_gained r)
   \<and> ((i, new, vg, lg) \<in> set (creator_videos_in_period_joined p db c s e) \<longrightarrow>
      new = 1 \<or> 0 < vg \<or> 0 < lg)
   \<and> (no_signal p db i s e \<longrightarrow>
        i \<notin> fst ` set (videos_in_period_joined p db s e)
        \<and> videos_in_period_joined p (without_video i db) s e = videos_in_period_joined p db s e
        \<and> (data_period m = Some p \<longrightarrow>
             calculate_stats_for_period tg ts (Some (without_video i db)) s e pt m =
             calculate_stats_for_period tg ts (Some db) s e pt m))
   \<and> (creator_no_signal p db c i s e \<longrightarrow>
        i \<notin> fst ` set (creator_videos_in_period_joined p db c s e)
        \<and> creator_videos_in_period_joined p (without_video i db) c s e =
            creator_videos_in_period_joined p db c s e)"
proof (intro conjI impI)
  assume "(i, r) \<in> set (videos_in_period_joined p db s e)"
  then show "is_new r = 1 \<or> 0 < views_gained r \<or> 0 < likes_gained r"
    by (auto simp: videos_joined_iff)
next
  assume "(i, new, vg, lg) \<in> set (creator_videos_in_period_joined p db c s e)"
  then show "new = 1 \<or> 0 < vg \<or> 0 < lg"
    by (auto simp: creator_joined_iff)
next
  assume n: "no_signal p db i s e"
  show "i \<notin> fst ` set (videos_in_period_joined p db s e)"
  proof
    assume "i \<in> fst ` set (videos_in_period_joined p db s e)"
    then obtain r where "(i, r) \<in> set (videos_in_period_joined p db s e)" by auto
    with n show False
      by (auto simp: videos_joined_iff no_signal_def list_all_iff)
  qed
  show "videos_in_period_joined p (without_video i db) s e = videos_in_period_joined p db s e"
    using n by (rule videos_joined_without)
  assume "data_period m = Some p"
  with n show "calculate_stats_for_period tg ts (Some (without_video i db)) s e pt m =
             calculate_stats_for_period tg ts (Some db) s e pt m"
    by (rule calculate_without)
next
  assume n: "creator_no_signal p db c i s e"
  show "i \<notin> fst ` set (creator_videos_in_period_joined p db c s e)"
  proof
    assume "i \<in> fst ` set (creator_videos_in_period_joined p db c s e)"
    then obtain r where "(i, r) \<in> set (creator_videos_in_period_joined p db c s e)" by auto
    with n show False
      by (auto simp: creator_joined_iff creator_no_signal_def list_all_iff)
  qed
  show "creator_videos_in_period_joined p (without_video i db) c s e =
            creator_videos_in_period_joined p db c s e"
    using n by (rule creator_joined_without)
qed

lemma scenario_mixed_eval:
  "videos_in_period_joined (initial_data_period 2023) scenario_mixed_store
     (day_start 2023 11 5) (day_start 2023 11 6) =
     [(''E'', \<lparr>human_id = 1, is_new = 0, views_gained = 50, likes_gained = 0\<rparr>)]"
  "no_signal (initial_data_period 2023) scenario_mixed_store ''D''
     (day_start 2023 11 5) (day_start 2023 11 6)"
  "creator_no_signal (initial_data_period 2023) scenario_mixed_store 3 ''D''
     (day_start 2023 11 5) (day_start 2023 11 6)"
  "creator_videos_in_period_joined (initial_data_period 2023) scenario_mixed_store 3
     (day_start 2023 11 5) (day_start 2023 11 6) = []"
  "creator_videos_in_period_joined (initial_data_period 2023) scenario_mixed_store 1
     (day_start 2023 11 5) (day_start 2023 11 6) = [(''E'', 0, 50, 0)]"
  by code_simp+

theorem no_signal_entities_dropped_witness:
  "(''E'', \<lparr>human_id = 1, is_new = 0, views_gained = 50, likes_gained = 0\<rparr>)
     \<in> set (videos_in_period_joined (initial_data_period 2023) scenario_mixed_store
              (day_start 2023 11 5) (day_start 2023 11 6))
   \<and> (''E'', 0, 50, 0)
     \<in> set (creator_videos_in_period_joined (initial_data_period 2023) scenario_mixed_store 1
              (day_start 2023 11 5) (day_start 2023 11 6))
   \<and> no_signal (initial_data_period 2023) scenario_mixed_store ''D''
        (day_start 2023 11 5) (day_start 2023 11 6)
   \<and> creator_no_signal (initial_data_period 2023) scenario_mixed_store 3 ''D''
        (day_start 2023 11 5) (day_start 2023 11 6)
   \<and> data_period manager_2023 = Some (initial_data_period 2023)
   \<and> ''D'' \<notin> fst ` set (videos_in_period_joined (initial_data_period 2023) scenario_mixed_store
                          (day_start 2023 11 5) (day_start 2023 11 6))
   \<and> calculate_stats_for_period 0 0 (Some (without_video ''D'' scenario_mixed_store))
        (day_start 2023 11 5) (day_start 2023 11 6) DAY manager_2023 =
      calculate_stats_for_period 0 0 (Some scenario_mixed_store)
        (day_start 2023 11 5) (day_start 2023 11 6) DAY manager_2023"
proof -
  have dp: "data_period manager_2023 = Some (initial_data_period 2023)"
    by (simp add: manager_2023_def)
  from no_signal_entities_dropped [where i = "''D''" and p = "initial_data_period 2023"
      and db = scenario_mixed_store and s = "day_start 2023 11 5" and e = "day_start 2023 11 6"
      and c = 3 and m = manager_2023 and tg = 0 and ts = 0 and pt = DAY]
    scenario_mixed_eval(2,3) dp
  have "''D'' \<notin> fst ` set (videos_in_period_joined (initial_data_period 2023)
                  scenario_mixed_store (day_start 2023 11 5) (day_start 2023 11 6))"
    and "calculate_stats_for_period 0 0 (Some (without_video ''D'' scenario_mixed_store))
        (day_start 2023 11 5) (day_start 2023 11 6) DAY manager_2023 =
      calculate_stats_for_period 0 0 (Some scenario_mixed_store)
        (day_start 2023 11 5) (day_start 2023 11 6) DAY manager_2023"
    by blast+
  then show ?thesis
    using scenario_mixed_eval dp by simp
qed

subsection \<open>The engagement rate\<close>

lemma round_half_even_nonneg: "0 \<le> x \<Longrightarrow> 0 \<le> round_half_even x"
  by (auto simp: round_half_even_def Let_def)

lemma pow2_pos: "0 < pow2 e"
  by (simp add: pow2_def)

lemma b64_nonneg:
  assumes "0 \<le> x"
  shows "0 \<le> b64 x"
proof (cases "x = 0")
  case True
  then show ?thesis by (simp add: b64_def)
next
  case False
  let ?e = "floor_log2 \<bar>x\<bar> - 52"
  have "0 \<le> x / pow2 ?e"
    using assms pow2_pos[of ?e] by (simp add: divide_nonneg_pos)
  then have "0 \<le> round_half_even (x / pow2 ?e)"
    by (rule round_half_even_nonneg)
  then have "(0::rat) \<le> of_int (round_half_even (x / pow2 ?e)) * pow2 ?e"
    using pow2_pos[of ?e] by (intro mult_nonneg_nonneg) simp_all
  with False show ?thesis by (simp add: b64_def Let_def)
qed

lemma round2_nonneg: "0 \<le> x \<Longrightarrow> 0 \<le> round2 x"
  by (simp add: round2_def b64_nonneg round_half_even_nonneg)

lemma float_mul_nonneg: "0 \<le> x \<Longrightarrow> 0 \<le> y \<Longrightarrow> 0 \<le> float_mul x y"
  by (simp add: float_mul_def b64_nonneg)

lemma engagement_rate_no_fault: "engagement_rate likes views \<noteq> Inl err"
  by (auto simp: engagement_rate_def int_truediv_def)

lemma pow2_powi: "pow2 e = 2 powi e"
  by (simp add: pow2_def power_int_def field_simps)

lemma pow2_diff: "pow2 (a - b) = pow2 a / pow2 b"
  by (simp add: pow2_powi power_int_diff)

lemma pow2_shift: "pow2 (e - 52) * (1 / 2) = pow2 e / 2 ^ 53"
  by (simp add: pow2_diff) (simp add: pow2_def)

lemma round_half_even_error: "\<bar>of_int (round_half_even x) - x\<bar> \<le> 1 / 2"
proof -
  have "of_int \<lfloor>x\<rfloor> \<le> x" "x < of_int \<lfloor>x\<rfloor> + 1" by linarith+
  then show ?thesis
    by (auto simp: round_half_even_def Let_def abs_le_iff)
qed

lemma floor_log2_lower:
  assumes "0 < x"
  shows "pow2 (floor_log2 x) \<le> x"
proof -
  obtain p q where pq: "quotient_of x = (p, q)" by (cases "quotient_of x")
  then have q: "0 < q" and x: "x = of_int p / of_int q"
    by (auto dest: quotient_of_denom_pos quotient_of_div)
  with assms have p: "0 < p" by (simp add: zero_less_divide_iff)
  let ?e0 = "bitlen p - bitlen q - 1"
  have bp: "2 ^ nat (bitlen p - 1) \<le> p" and bq: "q < 2 ^ nat (bitlen q)"
    using bitlen_bounds[OF p] bitlen_bounds[OF q] by simp_all
  have ge: "1 \<le> bitlen p" using p by (auto simp: bitlen_alt_def)
  have "pow2 ?e0 = pow2 (bitlen p - 1) / pow2 (bitlen q)"
    using pow2_diff[of "bitlen p - 1" "bitlen q"] by (simp add: algebra_simps)
  also have "\<dots> = 2 ^ nat (bitlen p - 1) / 2 ^ nat (bitlen q)"
    using ge by (simp add: pow2_def bitlen_nonneg)
  also have "\<dots> \<le> of_int p / of_int q"
  proof -
    have a: "(2::rat) ^ nat (bitlen p - 1) \<le> of_int p"
      using bp by (metis of_int_le_iff of_int_numeral of_int_power)
    have b: "(of_int q :: rat) \<le> 2 ^ nat (bitlen q)"
      using bq by (metis less_imp_le of_int_le_iff of_int_numeral of_int_power)
    show ?thesis
      using a b p q by (intro frac_le) simp_all
  qed
  finally have low: "pow2 ?e0 \<le> x" using x by simp
  show ?thesis
    using low pq by (simp add: floor_log2_def Let_def)
qed

text \<open>Rounding to binary64 moves a number by at most \<open>2\<^sup>-\<^sup>5\<^sup>3\<close> of its magnitude.\<close>

lemma b64_error: "\<bar>b64 x - x\<bar> \<le> \<bar>x\<bar> / 2 ^ 53"
proof (cases "x = 0")
  case True
  then show ?thesis by (simp add: b64_def)
next
  case False
  let ?e = "floor_log2 \<bar>x\<bar>"
  let ?s = "pow2 (?e - 52)"
  have s: "0 < ?s" by (simp add: pow2_def)
  have "(of_int (round_half_even (x / ?s)) - x / ?s) * ?s = b64 x - x"
    using False s by (simp add: b64_def Let_def left_diff_distrib)
  then have "\<bar>b64 x - x\<bar> = \<bar>of_int (round_half_even (x / ?s)) - x / ?s\<bar> * \<bar>?s\<bar>"
    by (simp only: abs_mult[symmetric])
  also have "\<dots> = \<bar>of_int (round_half_even (x / ?s)) - x / ?s\<bar> * ?s"
    using s by simp
  also have "\<dots> \<le> 1 / 2 * ?s"
    using s round_half_even_error[of "x / ?s"] by (intro mult_right_mono) simp_all
  also have "\<dots> = pow2 ?e / 2 ^ 53"
    using pow2_shift[of ?e] by (simp add: mult.commute)
  also have "\<dots> \<le> \<bar>x\<bar> / 2 ^ 53"
    using floor_log2_lower[of "\<bar>x\<bar>"] False by (simp add: divide_right_mono)
  finally show ?thesis .
qed

lemma float_product_error:
  assumes "0 \<le> q"
  shows "\<bar>float_mul (b64 q) 100 - q * 100\<bar> \<le> q * 100 * 3 / 2 ^ 53"
proof -
  let ?u = "1 / 2 ^ 53 :: rat"
  let ?x1 = "b64 q"
  have x1: "0 \<le> ?x1" using assms by (rule b64_nonneg)
  have e1: "\<bar>?x1 - q\<bar> \<le> q * ?u"
    using b64_error[of q] assms by simp
  then have "?x1 \<le> q + q * ?u" by linarith
  also have "\<dots> = q * (1 + ?u)" by (simp only: distrib_left mult_1_right)
  finally have x1_le: "?x1 \<le> q * (1 + ?u)" .
  have "\<bar>b64 (?x1 * 100) - ?x1 * 100\<bar> \<le> ?x1 * 100 * ?u"
    using b64_error[of "?x1 * 100"] x1 by simp
  also have "\<dots> \<le> q * (1 + ?u) * 100 * ?u"
    using x1_le by simp
  finally have e2: "\<bar>b64 (?x1 * 100) - ?x1 * 100\<bar> \<le> q * (1 + ?u) * 100 * ?u" .
  have "\<bar>?x1 * 100 - q * 100\<bar> = \<bar>(?x1 - q) * 100\<bar>"
    by (simp only: left_diff_distrib)
  also have "\<dots> = \<bar>?x1 - q\<bar> * 100"
    by (simp only: abs_mult abs_numeral)
  finally have "\<bar>?x1 * 100 - q * 100\<bar> = \<bar>?x1 - q\<bar> * 100" .
  then have "\<bar>b64 (?x1 * 100) - q * 100\<bar>
               \<le> \<bar>b64 (?x1 * 100) - ?x1 * 100\<bar> + \<bar>?x1 - q\<bar> * 100"
    by linarith
  also have "\<dots> \<le> q * (1 + ?u) * 100 * ?u + q * ?u * 100"
    using e1 e2 by simp
  also have "\<dots> = q * 100 * (2 + ?u) * ?u"
    by (simp add: algebra_simps)
  also have "\<dots> \<le> q * 100 * 3 * ?u"
    using assms by (intro mult_right_mono mult_left_mono) simp_all
  finally show ?thesis by (simp add: float_mul_def)
qed

lemma two_decimal_error:
  assumes q: "0 \<le> q"
  defines "k \<equiv> round_half_even (float_mul (b64 q) 100 * 100)"
  shows "\<bar>of_int k / 100 - q * 100\<bar> \<le> 1 / 200 + q * 100 * 3 / 2 ^ 53"
proof -
  let ?x = "float_mul (b64 q) 100"
  have "\<bar>of_int k - ?x * 100\<bar> \<le> 1 / 2"
    unfolding k_def by (rule round_half_even_error)
  then have "\<bar>of_int k / 100 - ?x\<bar> \<le> 1 / 200"
    by (simp add: abs_le_iff field_simps)
  moreover have "\<bar>of_int k / 100 - q * 100\<bar> \<le> \<bar>of_int k / 100 - ?x\<bar> + \<bar>?x - q * 100\<bar>"
    by linarith
  ultimately show ?thesis
    using float_product_error[OF q] by linarith
qed

lemma two_decimal_near_exact:
  assumes "0 \<le> likes" and "0 < views" and "likes * 30000 < views * 2 ^ 53"
  defines "k \<equiv> round_half_even (float_mul (b64 (of_int likes / of_int views)) 100 * 100)"
  shows "\<bar>of_int k / 100 - spec_engagement_rate likes views\<bar> \<le> 1 / 100"
proof -
  let ?q = "of_int likes / of_int views :: rat"
  let ?k' = "round_half_even (?q * 100 * 100)"
  have q: "0 \<le> ?q" using assms by simp
  have "(of_int (likes * 30000) :: rat) < of_int (views * 2 ^ 53)"
    using assms(3) by (simp only: of_int_less_iff)
  then have small: "?q * 100 * 3 / 2 ^ 53 < 1 / 100"
    using assms(2) by (simp add: field_simps)
  have a: "\<bar>of_int k / 100 - ?q * 100\<bar> \<le> 1 / 200 + ?q * 100 * 3 / 2 ^ 53"
    unfolding k_def by (rule two_decimal_error[OF q])
  have "\<bar>of_int ?k' - ?q * 100 * 100\<bar> \<le> 1 / 2"
    by (rule round_half_even_error)
  then have b: "\<bar>of_int ?k' / 100 - ?q * 100\<bar> \<le> 1 / 200"
    by (simp add: abs_le_iff field_simps)
  have "\<bar>of_int k / 100 - of_int ?k' / (100::rat)\<bar> < 2 / 100"
    using a b small by linarith
  then have "\<bar>(of_int (k - ?k') :: rat)\<bar> < 2"
    by (simp add: abs_less_iff field_simps)
  then have "\<bar>k - ?k'\<bar> < 2"
    by (metis of_int_abs of_int_less_iff of_int_numeral)
  then have "\<bar>k - ?k'\<bar> \<le> 1" by simp
  then have "\<bar>(of_int (k - ?k') :: rat)\<bar> \<le> 1"
    by (metis of_int_abs of_int_le_iff of_int_1)
  then have "\<bar>of_int k / 100 - of_int ?k' / (100::rat)\<bar> \<le> 1 / 100"
    by (simp add: abs_le_iff field_simps)
  then show ?thesis
    using assms(2) by (simp add: spec_engagement_rate_def)
qed

lemma engagement_rate_pos:
  "0 < views \<Longrightarrow> engagement_rate likes views =
     Inr (PFloat (b64 (of_int (round_half_even
        (float_mul (b64 (of_int likes / of_int views)) 100 * 100)) / 100)))"
  by (simp add: engagement_rate_def int_truediv_def round2_def)

lemma engagement_rate_zero: "views \<le> 0 \<Longrightarrow> engagement_rate likes views = Inr (PInt 0)"
  by (simp add: engagement_rate_def)

lemma engagement_rate_value_nonneg:
  assumes "0 \<le> likes"
  shows "\<exists>v x. engagement_rate likes views = Inr v \<and> number_value v = Some x \<and> 0 \<le> x"
proof (cases "0 < views")
  case False
  then show ?thesis by (simp add: engagement_rate_def)
next
  case True
  with assms have "(0::rat) \<le> of_int likes / of_int views" by simp
  then have "0 \<le> round2 (float_mul (b64 (of_int likes / of_int views)) 100)"
    by (intro round2_nonneg float_mul_nonneg b64_nonneg) simp_all
  with True show ?thesis by (simp add: engagement_rate_def int_truediv_def)
qed

lemma fold_aggregate_totals:
  "total_views_gained (fold aggregate_step vs t) = total_views_gained t + sum_list (map views_gained vs)
   \<and> total_likes_gained (fold aggregate_step vs t) = total_likes_gained t + sum_list (map likes_gained vs)"
  by (induction vs arbitrary: t) (simp_all add: aggregate_step_def Let_def)

lemma aggregate_loop_totals:
  "total_views_gained (aggregate_loop vs) = sum_list (map views_gained vs)"
  "total_likes_gained (aggregate_loop vs) = sum_list (map likes_gained vs)"
  by (simp_all add: aggregate_loop_def fold_aggregate_totals)

lemma video_rows_nonneg:
  "0 \<le> sum_list (map views_gained (map snd (videos_in_period_joined p db s e)))"
  "0 \<le> sum_list (map likes_gained (map snd (videos_in_period_joined p db s e)))"
  by (rule sum_list_nonneg; auto simp: videos_joined_iff gained_nonneg)+

lemma creator_rows_nonneg:
  "0 \<le> sum_list (map (\<lambda>(new, vg, lg). vg) (map snd (creator_videos_in_period_joined p db c s e)))"
  "0 \<le> sum_list (map (\<lambda>(new, vg, lg). lg) (map snd (creator_videos_in_period_joined p db c s e)))"
  by (rule sum_list_nonneg; auto simp: creator_joined_iff gained_nonneg)+

lemma aggregate_video_result:
  assumes "0 \<le> sum_list (map likes_gained videos)"
  shows "\<exists>r v x. aggregate_video_stats p videos s e pt dt = Inr r
     \<and> map_of r ''views_gained'' = Some (PInt (sum_list (map views_gained videos)))
     \<and> map_of r ''likes_gained'' = Some (PInt (sum_list (map likes_gained videos)))
     \<and> engagement_rate (sum_list (map likes_gained videos))
          (sum_list (map views_gained videos)) = Inr v
     \<and> map_of r ''engagement_rate'' = Some v
     \<and> number_value v = Some x \<and> 0 \<le> x"
proof -
  from engagement_rate_value_nonneg[OF assms, of "sum_list (map views_gained videos)"]
  obtain v x where "engagement_rate (sum_list (map likes_gained videos))
          (sum_list (map views_gained videos)) = Inr v" "number_value v = Some x" "0 \<le> x"
    by blast
  then show ?thesis
    by (simp add: aggregate_video_stats_def Let_def aggregate_loop_totals)
qed

lemma aggregate_creator_result:
  assumes "0 \<le> sum_list (map (\<lambda>(new, vg, lg). lg) videos)"
  shows "\<exists>r v x. aggregate_creator_stats p c videos s e pt = Inr r
     \<and> map_of r ''views_gained'' = Some (PInt (sum_list (map (\<lambda>(new, vg, lg). vg) videos)))
     \<and> map_of r ''likes_gained'' = Some (PInt (sum_list (map (\<lambda>(new, vg, lg). lg) videos)))
     \<and> engagement_rate (sum_list (map (\<lambda>(new, vg, lg). lg) videos))
          (sum_list (map (\<lambda>(new, vg, lg). vg) videos)) = Inr v
     \<and> map_of r ''engagement_rate'' = Some v
     \<and> number_value v = Some x \<and> 0 \<le> x"
proof -
  from engagement_rate_value_nonneg[OF assms, of "sum_list (map (\<lambda>(new, vg, lg). vg) videos)"]
  obtain v x where "engagement_rate (sum_list (map (\<lambda>(new, vg, lg). lg) videos))
          (sum_list (map (\<lambda>(new, vg, lg). vg) videos)) = Inr v" "number_value v = Some x" "0 \<le> x"
    by blast
  then show ?thesis
    by (simp add: aggregate_creator_stats_def Let_def)
qed

text \<open>
  C4, as the code has it. When views were gained, the engagement rate is the float
  \<^verbatim>\<open>round(likes / views * 100, 2)\<close>: the quotient and its product with 100 are each
  rounded to binary64, the product is rounded to a whole number \<open>k\<close> of hundredths, a tie
  going to the even one, and the result is the float nearest to \<open>k / 100\<close>. For
  non-negative likes, \<open>k / 100\<close> lies within \<open>1/200 + 3 * rate / 2\<^sup>5\<^sup>3\<close> of the exact
  rate \<open>likes / views * 100\<close>, and, when \<open>30000 * likes < 2\<^sup>5\<^sup>3 * views\<close>, within one
  hundredth of the exact rate rounded to two decimals. When no views were gained the rate is
  the int 0. The division is never by zero, so no \<open>ZeroDivisionError\<close> can leave it, and
  for non-negative likes the rate is not negative. Both roll-ups, applied to the rows of
  their query, have non-negative totals and return a dictionary whose \<open>engagement_rate\<close>
  is that rate of its \<open>likes_gained\<close> and \<open>views_gained\<close>, a non-negative number.
\<close>

theorem engagement_rate_guarded:
  "(0 < views \<longrightarrow>
      (let k = round_half_even (float_mul (b64 (of_int likes / of_int views)) 100 * 100)
       in engagement_rate likes views = Inr (PFloat (b64 (of_int k / 100)))
          \<and> (0 \<le> likes \<longrightarrow>
               \<bar>of_int k / 100 - of_int likes / of_int views * 100\<bar>
                 \<le> (1 / 200 + of_int likes / of_int views * 100 * 3 / 2 ^ 53 :: rat))
          \<and> (0 \<le> likes \<and> likes * 30000 < views * 2 ^ 53 \<longrightarrow>
               \<bar>of_int k / 100 - spec_engagement_rate likes views\<bar> \<le> 1 / 100)))
   \<and> (views \<le> 0 \<longrightarrow> engagement_rate likes views = Inr (PInt 0))
   \<and> spec_engagement_rate likes 0 = 0
   \<and> engagement_rate likes views \<noteq> Inl ZeroDivisionError
   \<and> (0 \<le> likes \<longrightarrow>
        (\<exists>v x. engagement_rate likes views = Inr v \<and> number_value v = Some x \<and> 0 \<le> x))
   \<and> (let videos = map snd (videos_in_period_joined p db s e);
           tv = sum_list (map views_gained videos);
           tl = sum_list (map likes_gained videos)
       in 0 \<le> tv \<and> 0 \<le> tl
          \<and> (\<exists>r v x. aggregate_video_stats p videos s e pt dt = Inr r
                \<and> map_of r ''views_gained'' = Some (PInt tv)
                \<and> map_of r ''likes_gained'' = Some (PInt tl)
                \<and> engagement_rate tl tv = Inr v
                \<and> map_of r ''engagement_rate'' = Some v
                \<and> number_value v = Some x \<and> 0 \<le> x))
   \<and> (let videos = map snd (creator_videos_in_period_joined p db c s e);
           tv = sum_list (map (\<lambda>(new, vg, lg). vg) videos);
           tl = sum_list (map (\<lambda>(new, vg, lg). lg) videos)
       in 0 \<le> tv \<and> 0 \<le> tl
          \<and> (\<exists>r v x. aggregate_creator_stats p c videos s e pt = Inr r
                \<and> map_of r ''views_gained'' = Some (PInt tv)
                \<and> map_of r ''likes_gained'' = Some (PInt tl)
                \<and> engagement_rate tl tv = Inr v
                \<and> map_of r ''engagement_rate'' = Some v
                \<and> number_value v = Some x \<and> 0 \<le> x))"
  unfolding Let_def
proof (intro conjI impI)
  assume "0 < views"
  then show "engagement_rate likes views =
      Inr (PFloat (b64 (of_int (round_half_even
        (float_mul (b64 (of_int likes / of_int views)) 100 * 100)) / 100)))"
    by (rule engagement_rate_pos)
next
  assume "0 < views" and "0 \<le> likes"
  then have "(0::rat) \<le> of_int likes / of_int views" by simp
  then show "\<bar>of_int (round_half_even (float_mul (b64 (of_int likes / of_int views)) 100 * 100))
                / 100 - of_int likes / of_int views * 100\<bar>
              \<le> (1 / 200 + of_int likes / of_int views * 100 * 3 / 2 ^ 53 :: rat)"
    by (rule two_decimal_error)
next
  assume "0 < views" and "0 \<le> likes \<and> likes * 30000 < views * 2 ^ 53"
  then have "0 \<le> likes" "0 < views" "likes * 30000 < views * 2 ^ 53"
    by blast+
  then show "\<bar>of_int (round_half_even (float_mul (b64 (of_int likes / of_int views)) 100 * 100))
                / 100 - spec_engagement_rate likes views\<bar> \<le> 1 / 100"
    by (rule two_decimal_near_exact)
next
  assume "views \<le> 0"
  then show "engagement_rate likes views = Inr (PInt 0)"
    by (rule engagement_rate_zero)
next
  show "spec_engagement_rate likes 0 = 0"
    by (simp add: spec_engagement_rate_def)
next
  show "engagement_rate likes views \<noteq> Inl ZeroDivisionError"
    by (rule engagement_rate_no_fault)
next
  assume "0 \<le> likes"
  then show "\<exists>v x. engagement_rate likes views = Inr v \<and> number_value v = Some x \<and> 0 \<le> x"
    by (rule engagement_rate_value_nonneg)
qed (simp_all only: video_rows_nonneg creator_rows_nonneg
      aggregate_video_result[OF video_rows_nonneg(2)]
      aggregate_creator_result[OF creator_rows_nonneg(2)])

lemma engagement_eval:
  "round_half_even (float_mul (b64 (23 / 160)) 100 * 100) = 1437"
  "engagement_rate 23 160 = Inr (PFloat (b64 (1437 / 100)))"
  "spec_engagement_rate 23 160 = 1438 / 100"
  "engagement_rate 1 3 = Inr (PFloat (b64 (3333 / 100)))"
  "engagement_rate 7 0 = Inr (PInt 0)"
  "result_field (get_custom_period_stats 0 0 (Some scenario_mixed_store) (day_start 2023 11 2)
     (day_start 2023 11 5) manager_2023) ''engagement_rate'' = Some (PFloat 2)"
  by code_simp+

theorem engagement_rate_guarded_witness:
  "(0::int) < 160 \<and> (0::int) \<le> 23 \<and> (23::int) * 30000 < 160 * 2 ^ 53
   \<and> round_half_even (float_mul (b64 (23 / 160)) 100 * 100) = 1437
   \<and> engagement_rate 23 160 = Inr (PFloat (b64 (1437 / 100)))
   \<and> \<bar>(1437::rat) / 100 - 23 / 160 * 100\<bar> \<le> 1 / 200 + 23 / 160 * 100 * 3 / 2 ^ 53
   \<and> \<bar>1437 / 100 - spec_engagement_rate 23 160\<bar> \<le> 1 / 100
   \<and> engagement_rate 1 3 = Inr (PFloat (b64 (3333 / 100)))
   \<and> engagement_rate 7 0 = Inr (PInt 0)
   \<and> result_field (get_custom_period_stats 0 0 (Some scenario_mixed_store) (day_start 2023 11 2)
        (day_start 2023 11 5) manager_2023) ''engagement_rate'' = Some (PFloat 2)"
  using engagement_rate_guarded [where likes = 23 and views = 160] engagement_eval
  by simp

text \<open>
  C4 as stated fails for 23 likes on 160 views. The exact rate is 14.375 and rounds to
  14.38. The float product \<^verbatim>\<open>23 / 160 * 100\<close> is below 14.375, so the code rounds it to
  14.37: the rate returned is the float nearest to 14.37, which is neither 14.38 nor the
  float nearest to 14.38.
\<close>

theorem engagement_rate_is_not_the_rounded_exact_rate:
  "spec_engagement_rate 23 160 = 1438 / 100
   \<and> float_mul (b64 (23 / 160)) 100 < 14375 / 1000
   \<and> engagement_rate 23 160 = Inr (PFloat (b64 (1437 / 100)))
   \<and> engagement_rate 23 160 \<noteq> Inr (PFloat (spec_engagement_rate 23 160))
   \<and> engagement_rate 23 160 \<noteq> Inr (PFloat (b64 (spec_engagement_rate 23 160)))"
  by code_simp

subsection \<open>The scenario of two snapshots\<close>

text \<open>
  C3, as the code has it. The video has counter-window snapshots with views 100 on
  2023-11-01 and views 150 on 2023-11-05. The custom request from 2023-11-01 to 2023-11-05
  resolves to \<open>[2023-11-01 00:00, 2023-11-06 00:00)\<close>. Both snapshots are observed before
  the end, so \<open>before_end\<close> is 150; none is observed strictly before the start, so
  \<open>before_start\<close> is the default 0; \<open>views_gained\<close> is \<open>max (150 - 0) 0 = 150\<close>, in
  the period statistics and in the statistics of the creator.
\<close>

theorem scenario_b_views_gained:
  "result_field (get_custom_period_stats 0 0 (Some scenario_b_store) (day_start 2023 11 1)
     (day_start 2023 11 5) manager_2023) ''views_gained'' = Some (PInt 150)
   \<and> calculate_period_bounds (Some (day_start 2023 11 1)) CUSTOM (Some (day_start 2023 11 5))
       = Inr (Some (day_start 2023 11 1, day_start 2023 11 6))
   \<and> max_before views_count (day_start 2023 11 6)
        (counter_group (initial_data_period 2023) scenario_b_store ''E'') = 150
   \<and> max_before views_count (day_start 2023 11 1)
        (counter_group (initial_data_period 2023) scenario_b_store ''E'') = 0
   \<and> gained views_count (day_start 2023 11 1) (day_start 2023 11 6)
        (counter_group (initial_data_period 2023) scenario_b_store ''E'') = max (150 - 0) 0
   \<and> result_field (get_creator_stats (Some scenario_b_store) 1 CUSTOM
         (Some (day_start 2023 11 1)) (Some (day_start 2023 11 5)) manager_2023) ''views_gained''
       = Some (PInt 150)"
  by code_simp

theorem scenario_b_views_gained_witness:
  "initialized manager_2023
   \<and> dt_lt (day_start 2023 11 5) (day_start 2023 11 1) = False
   \<and> year (day_start 2023 11 1) = target_year (initial_data_period 2023)
   \<and> year (day_start 2023 11 5) = target_year (initial_data_period 2023)
   \<and> result_field (get_custom_period_stats 0 0 (Some scenario_b_store) (day_start 2023 11 1)
        (day_start 2023 11 5) manager_2023) ''views_gained'' = Some (PInt 150)"
  using scenario_b_views_gained
  by (simp add: manager_2023_def day_start_def initial_data_period_def dt_lt_def dt_tuple_def)

text \<open>C3 as stated fails: the request does not yield \<open>views_gained = 50\<close>.\<close>

theorem scenario_b_views_gained_is_not_50:
  "result_field (get_custom_period_stats 0 0 (Some scenario_b_store) (day_start 2023 11 1)
     (day_start 2023 11 5) manager_2023) ''views_gained'' \<noteq> Some (PInt 50)"
  by code_simp

end
